theory Spec2Isabelle
  imports Complex_Main "HOL-Library.AList"
begin

section \<open>The JavaScript values the viewer handles\<close>

text \<open>
  The metadata code of the viewer component (\<^verbatim>\<open>dicom-viewer.component.ts\<close>) and of
  \<^verbatim>\<open>image.service.ts\<close> works on values of type \<^verbatim>\<open>any\<close>: the element dictionary of a
  parsed DICOM object, the JSON answer of the metadata endpoint and the metadata objects
  themselves. They are modelled by one datatype of JavaScript values.

  A number is NaN, an infinity or a finite value, kept as the rational it denotes. The
  numbers that \<^verbatim>\<open>parseInt\<close> and \<^verbatim>\<open>parseFloat\<close> produce are rounded to a double by
  \<open>toNumber\<close> below; the sign of zero is not modelled. A string is a list of code units
  below 256.
\<close>

datatype jsnum = NaN | PosInf | NegInf | Fin rat

text \<open>
  A plain object is the list of its own properties in insertion order. A property is
  \<open>Some v\<close> for a data property holding \<open>v\<close>, and \<open>None\<close> for an accessor whose getter
  throws. Function values, properties inherited from the built-in prototypes and the
  index and \<^verbatim>\<open>length\<close> properties of strings and arrays are not modelled: reading one of
  them gives \<^verbatim>\<open>undefined\<close> here (none of these reads throws in JavaScript either).
\<close>

datatype jsval =
    Undefined
  | Null
  | Bool bool
  | Num jsnum
  | Str string
  | Arr "jsval list"
  | Obj "(string \<times> jsval option) list"

datatype exn = TypeError | Thrown

definition bindE :: "exn + 'a \<Rightarrow> ('a \<Rightarrow> exn + 'b) \<Rightarrow> exn + 'b" where
  "bindE m f = (case m of Inl e \<Rightarrow> Inl e | Inr x \<Rightarrow> f x)"

text \<open>ToBoolean: what \<^verbatim>\<open>if (v)\<close>, \<^verbatim>\<open>!v\<close> and \<^verbatim>\<open>v || w\<close> test.\<close>

fun truthy :: "jsval \<Rightarrow> bool" where
  "truthy Undefined = False"
| "truthy Null = False"
| "truthy (Bool b) = b"
| "truthy (Num n) = (n \<noteq> NaN \<and> n \<noteq> Fin 0)"
| "truthy (Str s) = (s \<noteq> [])"
| "truthy (Arr xs) = True"
| "truthy (Obj ps) = True"

text \<open>\<^verbatim>\<open>v[k]\<close>: reading a property. Reading from \<^verbatim>\<open>null\<close> or \<^verbatim>\<open>undefined\<close> is a TypeError.\<close>

fun js_get :: "jsval \<Rightarrow> string \<Rightarrow> exn + jsval" where
  "js_get Undefined k = Inl TypeError"
| "js_get Null k = Inl TypeError"
| "js_get (Obj ps) k =
     (case map_of ps k of
        None \<Rightarrow> Inr Undefined
      | Some None \<Rightarrow> Inl Thrown
      | Some (Some v) \<Rightarrow> Inr v)"
| "js_get v k = Inr Undefined"

text \<open>
  Joining strings with a separator, where producing any of the strings may have thrown:
  the first exception, left to right, is the result.
\<close>

fun sequenceE :: "(exn + 'a) list \<Rightarrow> exn + 'a list" where
  "sequenceE [] = Inr []"
| "sequenceE (m # ms) =
     (case m of
        Inl e \<Rightarrow> Inl e
      | Inr x \<Rightarrow> (case sequenceE ms of Inl e \<Rightarrow> Inl e | Inr xs \<Rightarrow> Inr (x # xs)))"

fun intercalate :: "string \<Rightarrow> string list \<Rightarrow> string" where
  "intercalate sep [] = []"
| "intercalate sep [s] = s"
| "intercalate sep (s # t # ss) = s @ sep @ intercalate sep (t # ss)"

text \<open>
  \<^verbatim>\<open>v.toString()\<close> for a \<open>v\<close> that is neither \<^verbatim>\<open>null\<close> nor \<^verbatim>\<open>undefined\<close>. The digits of a
  number are those of the runtime's Number-to-string conversion, the parameter \<open>nts\<close>.
  An array joins its items with a comma, an item \<^verbatim>\<open>null\<close> or \<^verbatim>\<open>undefined\<close> giving the
  empty string. A plain object gives \<^verbatim>\<open>[object Object]\<close> unless it has an own property
  \<^verbatim>\<open>toString\<close>: there are no function values here, so that property is either a
  throwing getter or not callable, and the call throws.
\<close>

fun js_toString :: "(jsnum \<Rightarrow> string) \<Rightarrow> jsval \<Rightarrow> exn + string" where
  "js_toString nts Undefined = Inl TypeError"
| "js_toString nts Null = Inl TypeError"
| "js_toString nts (Bool b) = Inr (if b then ''true'' else ''false'')"
| "js_toString nts (Num n) = Inr (nts n)"
| "js_toString nts (Str s) = Inr s"
| "js_toString nts (Arr xs) =
     (case sequenceE (map (\<lambda>x. if x = Undefined \<or> x = Null then Inr []
                                 else js_toString nts x) xs) of
        Inl e \<Rightarrow> Inl e
      | Inr ss \<Rightarrow> Inr (intercalate '','' ss))"
| "js_toString nts (Obj ps) =
     (case map_of ps ''toString'' of
        None \<Rightarrow> Inr ''[object Object]''
      | Some None \<Rightarrow> Inl Thrown
      | Some (Some f) \<Rightarrow> Inl TypeError)"

text \<open>\<^verbatim>\<open>xs.join(sep)\<close> on the items of an array.\<close>

definition js_join :: "(jsnum \<Rightarrow> string) \<Rightarrow> jsval list \<Rightarrow> string \<Rightarrow> exn + string" where
  "js_join nts xs sep =
     (case sequenceE (map (\<lambda>x. if x = Undefined \<or> x = Null then Inr []
                                 else js_toString nts x) xs) of
        Inl e \<Rightarrow> Inl e
      | Inr ss \<Rightarrow> Inr (intercalate sep ss))"

fun isArray :: "jsval \<Rightarrow> bool" where
  "isArray (Arr xs) = True"
| "isArray v = False"

fun arrayItems :: "jsval \<Rightarrow> jsval list" where
  "arrayItems (Arr xs) = xs"
| "arrayItems v = []"

section \<open>Tag resolution\<close>

definition backslash :: string where
  "backslash = [CHR 0x5C]"

definition startsWith :: "string \<Rightarrow> string \<Rightarrow> bool" where
  "startsWith s p = (take (length p) s = p)"

text \<open>
  The body of the \<^verbatim>\<open>try\<close> block of \<^verbatim>\<open>getTagValue(dataset, tagName)\<close>: direct access first,
  then the key with an \<^verbatim>\<open>x\<close> in front when the key does not start with one; \<^verbatim>\<open>value\<close>
  starts as \<^verbatim>\<open>null\<close>.
\<close>

definition getTagValue_try :: "(jsnum \<Rightarrow> string) \<Rightarrow> jsval \<Rightarrow> string \<Rightarrow> exn + string" where
  "getTagValue_try nts dataset tagName =
     (if \<not> truthy dataset then Inr []
      else
        bindE (js_get dataset tagName) (\<lambda>direct.
        bindE (if truthy direct then js_get direct ''value''
               else if startsWith tagName ''x'' then Inr Null
               else bindE (js_get dataset (''x'' @ tagName)) (\<lambda>prefixed.
                      if truthy prefixed then js_get prefixed ''value'' else Inr Null))
          (\<lambda>value.
             if value = Undefined \<or> value = Null then Inr []
             else if isArray value then js_join nts (arrayItems value) backslash
             else js_toString nts value)))"

text \<open>\<^verbatim>\<open>getTagValue\<close>: the \<^verbatim>\<open>catch\<close> clause logs a warning and returns the empty string.\<close>

definition getTagValue :: "(jsnum \<Rightarrow> string) \<Rightarrow> jsval \<Rightarrow> string \<Rightarrow> exn + string" where
  "getTagValue nts dataset tagName =
     (case getTagValue_try nts dataset tagName of
        Inl e \<Rightarrow> Inr []
      | Inr s \<Rightarrow> Inr s)"

text \<open>The ASCII case conversions of \<^verbatim>\<open>toLowerCase\<close> and \<^verbatim>\<open>toUpperCase\<close>.\<close>

definition lowerChar :: "char \<Rightarrow> char" where
  "lowerChar c =
     (let n = of_char c :: nat in if 65 \<le> n \<and> n \<le> 90 then char_of (n + 32) else c)"

definition upperChar :: "char \<Rightarrow> char" where
  "upperChar c =
     (let n = of_char c :: nat in if 97 \<le> n \<and> n \<le> 122 then char_of (n - 32) else c)"

definition toLowerCase :: "string \<Rightarrow> string" where
  "toLowerCase s = map lowerChar s"

definition toUpperCase :: "string \<Rightarrow> string" where
  "toUpperCase s = map upperChar s"

text \<open>\<^verbatim>\<open>key.replace(/[\(\)]/g, '')\<close>\<close>

definition removeParens :: "string \<Rightarrow> string" where
  "removeParens s = filter (\<lambda>c. c \<noteq> CHR ''('' \<and> c \<noteq> CHR '')'') s"

definition formats :: "string \<Rightarrow> string list" where
  "formats key = [key, ''x'' @ key, toLowerCase key, toUpperCase key, removeParens key]"

text \<open>
  The loop of \<^verbatim>\<open>getTag\<close> in \<^verbatim>\<open>extractDicomMetadata\<close>: the first format whose value is a
  non-empty string wins. The loop has no handler of its own, so an exception of
  \<^verbatim>\<open>getTagValue\<close> would leave it.
\<close>

fun getTag_loop :: "(jsnum \<Rightarrow> string) \<Rightarrow> jsval \<Rightarrow> string list \<Rightarrow> exn + string" where
  "getTag_loop nts dataset [] = Inr []"
| "getTag_loop nts dataset (format # rest) =
     bindE (getTagValue nts dataset format) (\<lambda>value.
       if value \<noteq> [] then Inr value else getTag_loop nts dataset rest)"

definition getTag :: "(jsnum \<Rightarrow> string) \<Rightarrow> jsval \<Rightarrow> string \<Rightarrow> exn + string" where
  "getTag nts dataset key = getTag_loop nts dataset (formats key)"

section \<open>Field normalisation\<close>

text \<open>
  \<^verbatim>\<open>formatDate\<close>, the same text in the viewer component and in \<^verbatim>\<open>parseMetadataFromFile\<close>.
  \<^verbatim>\<open>substring(a, b)\<close> on a string of length 8 is \<open>take (b - a) (drop a s)\<close>.
\<close>

definition formatDate :: "string \<Rightarrow> string" where
  "formatDate dateString =
     (if dateString = [] \<or> length dateString \<noteq> 8 then dateString
      else
        let year = take 4 dateString;
            month = take 2 (drop 4 dateString);
            day = take 2 (drop 6 dateString)
        in year @ ''-'' @ month @ ''-'' @ day)"

text \<open>
  The Number value of a rational: the nearest double, ties to the even significand. For
  a positive \<open>q\<close> with \<open>2 ^ e \<le> q < 2 ^ (e + 1)\<close> the doubles around \<open>q\<close> are the multiples
  of \<open>2 ^ (e - 52)\<close>, where \<open>e\<close> is not taken below \<open>- 1022\<close> (the subnormal range); a result
  of \<open>2 ^ 1024\<close> or more is an infinity.
\<close>

function bitLength :: "int \<Rightarrow> int" where
  "bitLength n = (if n \<le> 0 then 0 else 1 + bitLength (n div 2))"
  by pat_completeness auto
termination
  by (relation "measure nat") auto

declare bitLength.simps [simp del]

definition pow2 :: "int \<Rightarrow> rat" where
  "pow2 e = (if 0 \<le> e then 2 ^ nat e else 1 / 2 ^ nat (- e))"

definition binade :: "rat \<Rightarrow> int" where
  "binade q =
     (let e0 = bitLength (fst (quotient_of q)) - bitLength (snd (quotient_of q))
      in if pow2 e0 \<le> q then e0 else e0 - 1)"

definition roundHalfEven :: "rat \<Rightarrow> int" where
  "roundHalfEven m =
     (let f = \<lfloor>m\<rfloor>; r = m - of_int f
      in if r < 1 / 2 then f else if 1 / 2 < r then f + 1
         else if even f then f else f + 1)"

definition roundPositive :: "rat \<Rightarrow> jsnum" where
  "roundPositive q =
     (let e = max (binade q) (- 1022);
          ulp = pow2 (e - 52);
          r = of_int (roundHalfEven (q / ulp)) * ulp
      in if pow2 1024 \<le> r then PosInf else Fin r)"

definition toNumber :: "rat \<Rightarrow> jsnum" where
  "toNumber q =
     (if q = 0 then Fin 0
      else if 0 < q then roundPositive q
      else (case roundPositive (- q) of
              PosInf \<Rightarrow> NegInf
            | Fin r \<Rightarrow> Fin (- r)
            | other \<Rightarrow> other))"

text \<open>
  \<^verbatim>\<open>parseInt(string)\<close> of the ECMAScript runtime, called without a radix: leading white
  space is skipped, a sign is read, a prefix \<^verbatim>\<open>0x\<close> or \<^verbatim>\<open>0X\<close> selects radix 16, and the
  longest run of digits of the radix is the number, rounded to a double; no digit at all
  gives NaN. The white space and line terminators among the code units below 256 are
  tab, line feed, vertical tab, form feed, carriage return, space and no-break space.
\<close>

definition isWhiteSpace :: "char \<Rightarrow> bool" where
  "isWhiteSpace c =
     (c \<in> set [CHR 0x09, CHR 0x0A, CHR 0x0B, CHR 0x0C, CHR 0x0D, CHR 0x20, CHR 0xA0])"

definition trimStart :: "string \<Rightarrow> string" where
  "trimStart s = dropWhile isWhiteSpace s"

definition digitValue :: "char \<Rightarrow> nat option" where
  "digitValue c =
     (let n = of_char c :: nat in
      if 48 \<le> n \<and> n \<le> 57 then Some (n - 48)
      else if 97 \<le> n \<and> n \<le> 122 then Some (n - 87)
      else if 65 \<le> n \<and> n \<le> 90 then Some (n - 55)
      else None)"

definition isRadixDigit :: "nat \<Rightarrow> char \<Rightarrow> bool" where
  "isRadixDigit R c = (case digitValue c of None \<Rightarrow> False | Some d \<Rightarrow> d < R)"

definition digitsValue :: "nat \<Rightarrow> string \<Rightarrow> int" where
  "digitsValue R Z =
     foldl (\<lambda>a c. a * int R + int (case digitValue c of None \<Rightarrow> 0 | Some d \<Rightarrow> d)) 0 Z"

fun isNegative :: "string \<Rightarrow> bool" where
  "isNegative (c # cs) = (c = CHR ''-'')"
| "isNegative [] = False"

fun dropSign :: "string \<Rightarrow> string" where
  "dropSign (c # cs) = (if c = CHR ''+'' \<or> c = CHR ''-'' then cs else c # cs)"
| "dropSign [] = []"

definition parseInt :: "string \<Rightarrow> jsnum" where
  "parseInt inputString =
     (let S = trimStart inputString;
          sign = (if isNegative S then - 1 else 1 :: int);
          S1 = dropSign S;
          hex = (startsWith S1 ''0x'' \<or> startsWith S1 ''0X'');
          R = (if hex then 16 else 10);
          S2 = (if hex then drop 2 S1 else S1);
          Z = takeWhile (isRadixDigit R) S2
      in if Z = [] then NaN else toNumber (of_int (sign * digitsValue R Z)))"

text \<open>
  \<^verbatim>\<open>parseFloat(string)\<close> of the ECMAScript runtime: after leading white space, the longest
  prefix that is a decimal literal (a sign, then \<^verbatim>\<open>Infinity\<close>, or digits with an optional
  fraction, or a fraction alone, each with an optional exponent), rounded to a double;
  no such prefix gives NaN.
\<close>

definition exponentOf :: "string \<Rightarrow> int" where
  "exponentOf r =
     (case r of
        [] \<Rightarrow> 0
      | c # cs \<Rightarrow>
          if c = CHR ''e'' \<or> c = CHR ''E'' then
            (let ds = takeWhile (isRadixDigit 10) (dropSign cs)
             in if ds = [] then 0
                else (if isNegative cs then - 1 else 1) * digitsValue 10 ds)
          else 0)"

definition scale10 :: "rat \<Rightarrow> int \<Rightarrow> rat" where
  "scale10 q e = (if 0 \<le> e then q * 10 ^ nat e else q / 10 ^ nat (- e))"

definition parseFloat :: "string \<Rightarrow> jsnum" where
  "parseFloat inputString =
     (let S = trimStart inputString;
          neg = isNegative S;
          S1 = dropSign S
      in if startsWith S1 ''Infinity'' then (if neg then NegInf else PosInf)
         else
           let ip = takeWhile (isRadixDigit 10) S1;
               r1 = drop (length ip) S1;
               fp = (if startsWith r1 ''.'' then takeWhile (isRadixDigit 10) (drop 1 r1) else []);
               r2 = (if startsWith r1 ''.'' then drop (1 + length fp) r1 else r1)
           in if ip = [] \<and> fp = [] then NaN
              else
                let mantissa = of_int (digitsValue 10 ip)
                               + of_int (digitsValue 10 fp) / 10 ^ length fp
                in toNumber (scale10 ((if neg then - 1 else 1) * mantissa) (exponentOf r2)))"

text \<open>\<^verbatim>\<open>a || b\<close> on two strings: \<open>a\<close> unless it is empty.\<close>

definition orStr :: "string \<Rightarrow> string \<Rightarrow> string" where
  "orStr a b = (if a \<noteq> [] then a else b)"

text \<open>
  The integer fields: \<^verbatim>\<open>parseInt(getTag('00280010') || '0')\<close> in
  \<^verbatim>\<open>parseMetadataFromFile\<close>; the viewer's \<^verbatim>\<open>rows\<close> and \<^verbatim>\<open>columns\<close> are the same
  expression on \<^verbatim>\<open>getTag(tag) || getTag(keyword)\<close>. The float fields:
  \<^verbatim>\<open>parseFloat(getTag('00281050') || '0')\<close> in \<^verbatim>\<open>parseMetadataFromFile\<close>.
\<close>

definition intField :: "string \<Rightarrow> jsnum" where
  "intField raw = parseInt (orStr raw ''0'')"

definition floatField :: "string \<Rightarrow> jsnum" where
  "floatField raw = parseFloat (orStr raw ''0'')"

section \<open>Metadata objects and their reconciliation\<close>

text \<open>
  A metadata object (\<^verbatim>\<open>DicomMetadata\<close>, with its index signature) is a plain data object:
  the list of its properties in insertion order.
\<close>

type_synonym metadata = "(string \<times> jsval) list"

definition getProp :: "metadata \<Rightarrow> string \<Rightarrow> jsval" where
  "getProp m key = (case map_of m key of None \<Rightarrow> Undefined | Some v \<Rightarrow> v)"

definition setProp :: "metadata \<Rightarrow> string \<Rightarrow> jsval \<Rightarrow> metadata" where
  "setProp m key v = AList.update key v m"

text \<open>The object \<^verbatim>\<open>fetchMetadataFromApi\<close> puts in place before it sends its request.\<close>

definition emptyMetadata :: metadata where
  "emptyMetadata =
     [(''patientName'', Str []), (''patientId'', Str []),
      (''patientBirthDate'', Str []), (''patientSex'', Str []),
      (''modality'', Str []), (''rows'', Num (Fin 0)), (''columns'', Num (Fin 0)),
      (''imageType'', Str []),
      (''studyId'', Str []), (''studyInstanceUid'', Str []),
      (''studyDate'', Str []), (''studyTime'', Str []),
      (''seriesInstanceUid'', Str []), (''seriesNumber'', Str []),
      (''seriesDescription'', Str []),
      (''bodyPart'', Str []),
      (''imageId'', Str []), (''instanceNumber'', Str []),
      (''windowCenter'', Num (Fin 0)), (''windowWidth'', Num (Fin 0))]"

text \<open>
  The guard of the merge loop: \<^verbatim>\<open>newValue !== null && newValue !== undefined &&
  newValue !== '' && newValue !== 0 && newValue !== 'Not available'\<close>.
\<close>

definition nonEmptyValue :: "jsval \<Rightarrow> bool" where
  "nonEmptyValue newValue =
     (newValue \<noteq> Null \<and> newValue \<noteq> Undefined \<and> newValue \<noteq> Str [] \<and>
      newValue \<noteq> Num (Fin 0) \<and> newValue \<noteq> Str ''Not available'')"

text \<open>
  The merge of \<^verbatim>\<open>extractDicomMetadata\<close>: a copy of the current metadata, then one step for
  each key of the extracted object. The \<^verbatim>\<open>changes\<close> record of the source is only logged
  and is left out.
\<close>

definition mergeKey :: "metadata \<Rightarrow> metadata \<Rightarrow> string \<Rightarrow> metadata" where
  "mergeKey extractedMetadata mergedMetadata key =
     (let newValue = getProp extractedMetadata key
      in if nonEmptyValue newValue then setProp mergedMetadata key newValue
         else mergedMetadata)"

definition mergeMetadata :: "metadata \<Rightarrow> metadata \<Rightarrow> metadata" where
  "mergeMetadata current extractedMetadata =
     foldl (mergeKey extractedMetadata) current (map fst extractedMetadata)"

text \<open>
  What \<^verbatim>\<open>extractDicomMetadata\<close> leaves in \<^verbatim>\<open>this.dicomMetadata\<close>: the extracted object
  itself when there is no current metadata, the merge otherwise.
\<close>

definition reconcile :: "metadata option \<Rightarrow> metadata \<Rightarrow> metadata" where
  "reconcile current extractedMetadata =
     (case current of
        None \<Rightarrow> extractedMetadata
      | Some m \<Rightarrow> mergeMetadata m extractedMetadata)"

section \<open>Building the extracted metadata\<close>

text \<open>\<^verbatim>\<open>getTag(a) || getTag(b)\<close>: the second lookup runs only when the first gave \<^verbatim>\<open>''\<close>.\<close>

definition tagOr :: "(jsnum \<Rightarrow> string) \<Rightarrow> jsval \<Rightarrow> string \<Rightarrow> string \<Rightarrow> exn + string" where
  "tagOr nts dataset a b =
     bindE (getTag nts dataset a) (\<lambda>v. if v \<noteq> [] then Inr v else getTag nts dataset b)"

text \<open>\<^verbatim>\<open>v || 0\<close>\<close>

definition orZero :: "jsval \<Rightarrow> jsval" where
  "orZero v = (if truthy v then v else Num (Fin 0))"

text \<open>
  The object literal \<^verbatim>\<open>extractedMetadata\<close> of \<^verbatim>\<open>extractDicomMetadata(image)\<close>, its
  properties evaluated in the order written, after \<^verbatim>\<open>image.data.elements\<close> has been read.
  An exception anywhere leaves the \<^verbatim>\<open>try\<close> block of \<^verbatim>\<open>extractDicomMetadata\<close>.
\<close>

definition buildExtracted :: "(jsnum \<Rightarrow> string) \<Rightarrow> jsval \<Rightarrow> exn + metadata" where
  "buildExtracted nts img =
     bindE (js_get img ''data'') (\<lambda>data.
     bindE (js_get data ''elements'') (\<lambda>dataset.
     bindE (tagOr nts dataset ''00100010'' ''PatientName'') (\<lambda>patientName.
     bindE (tagOr nts dataset ''00100020'' ''PatientID'') (\<lambda>patientId.
     bindE (tagOr nts dataset ''00100030'' ''PatientBirthDate'') (\<lambda>patientBirthDate.
     bindE (tagOr nts dataset ''00100040'' ''PatientSex'') (\<lambda>patientSex.
     bindE (tagOr nts dataset ''00080060'' ''Modality'') (\<lambda>modality.
     bindE (tagOr nts dataset ''00280010'' ''Rows'') (\<lambda>rows.
     bindE (tagOr nts dataset ''00280011'' ''Columns'') (\<lambda>columns.
     bindE (tagOr nts dataset ''00080008'' ''ImageType'') (\<lambda>imageType.
     bindE (tagOr nts dataset ''00200010'' ''StudyID'') (\<lambda>studyId.
     bindE (tagOr nts dataset ''0020000D'' ''StudyInstanceUID'') (\<lambda>studyInstanceUid.
     bindE (tagOr nts dataset ''00080020'' ''StudyDate'') (\<lambda>studyDate.
     bindE (tagOr nts dataset ''00080030'' ''StudyTime'') (\<lambda>studyTime.
     bindE (tagOr nts dataset ''0020000E'' ''SeriesInstanceUID'') (\<lambda>seriesInstanceUid.
     bindE (tagOr nts dataset ''00200011'' ''SeriesNumber'') (\<lambda>seriesNumber.
     bindE (tagOr nts dataset ''0008103E'' ''SeriesDescription'') (\<lambda>seriesDescription.
     bindE (tagOr nts dataset ''00180015'' ''BodyPartExamined'') (\<lambda>bodyPart.
     bindE (js_get img ''imageId'') (\<lambda>imageId.
     bindE (tagOr nts dataset ''00200013'' ''InstanceNumber'') (\<lambda>instanceNumber.
     bindE (js_get img ''windowCenter'') (\<lambda>windowCenter.
     bindE (js_get img ''windowWidth'') (\<lambda>windowWidth.
     Inr [(''patientName'', Str patientName),
          (''patientId'', Str patientId),
          (''patientBirthDate'', Str (formatDate patientBirthDate)),
          (''patientSex'', Str patientSex),
          (''modality'', Str modality),
          (''rows'', Num (intField rows)),
          (''columns'', Num (intField columns)),
          (''imageType'', Str imageType),
          (''studyId'', Str studyId),
          (''studyInstanceUid'', Str studyInstanceUid),
          (''studyDate'', Str (formatDate studyDate)),
          (''studyTime'', Str studyTime),
          (''seriesInstanceUid'', Str seriesInstanceUid),
          (''seriesNumber'', Str seriesNumber),
          (''seriesDescription'', Str seriesDescription),
          (''bodyPart'', Str bodyPart),
          (''imageId'', imageId),
          (''instanceNumber'', Str instanceNumber),
          (''windowCenter'', orZero windowCenter),
          (''windowWidth'', orZero windowWidth)]))))))))))))))))))))))"

section \<open>The answer of the metadata endpoint\<close>

text \<open>
  The \<^verbatim>\<open>next\<close> handler of \<^verbatim>\<open>fetchMetadataFromApi\<close>. The response is a JSON object, or
  \<open>None\<close> for a body that is \<^verbatim>\<open>null\<close>; \<^verbatim>\<open>getImageMetadata\<close> turns a failed request into
  the empty object.
\<close>

definition normalizeKeys :: "metadata \<Rightarrow> metadata" where
  "normalizeKeys response =
     foldl (\<lambda>normalizedResponse key.
              setProp normalizedResponse (toLowerCase key) (getProp response key))
       [] (map fst response)"

definition fieldsToCheck :: "(string \<times> string list) list" where
  "fieldsToCheck =
     [(''patientName'', [''patientname'', ''patient_name'', ''name'']),
      (''patientId'', [''patientid'', ''patient_id'', ''id'']),
      (''patientBirthDate'',
         [''patientbirthdate'', ''patient_birth_date'', ''birthdate'', ''birth_date'']),
      (''patientSex'', [''patientsex'', ''patient_sex'', ''sex'', ''gender'']),
      (''modality'', [''modality'']),
      (''rows'', [''rows'']),
      (''columns'', [''columns'', ''cols'']),
      (''imageType'', [''imagetype'', ''image_type'', ''type'']),
      (''studyId'', [''studyid'', ''study_id'']),
      (''studyInstanceUid'', [''studyinstanceuid'', ''study_instance_uid'']),
      (''studyDate'', [''studydate'', ''study_date'']),
      (''studyTime'', [''studytime'', ''study_time'']),
      (''seriesInstanceUid'', [''seriesinstanceuid'', ''series_instance_uid'']),
      (''seriesNumber'', [''seriesnumber'', ''series_number'']),
      (''seriesDescription'', [''seriesdescription'', ''series_description'']),
      (''bodyPart'', [''bodypart'', ''body_part'']),
      (''instanceNumber'', [''instancenumber'', ''instance_number'']),
      (''windowCenter'', [''windowcenter'', ''window_center'']),
      (''windowWidth'', [''windowwidth'', ''window_width''])]"

fun firstPresent :: "metadata \<Rightarrow> string list \<Rightarrow> jsval option" where
  "firstPresent normalizedResponse [] = None"
| "firstPresent normalizedResponse (apiKey # rest) =
     (let v = getProp normalizedResponse apiKey
      in if v \<noteq> Undefined \<and> v \<noteq> Null \<and> v \<noteq> Str [] then Some v
         else firstPresent normalizedResponse rest)"

definition applyField :: "metadata \<Rightarrow> metadata \<Rightarrow> string \<times> string list \<Rightarrow> metadata" where
  "applyField normalizedResponse current field =
     (case firstPresent normalizedResponse (snd field) of
        None \<Rightarrow> current
      | Some v \<Rightarrow> setProp current (fst field) v)"

text \<open>
  The handler writes into \<^verbatim>\<open>this.dicomMetadata\<close> as it is when the answer arrives. When
  that is \<^verbatim>\<open>null\<close>, the first write throws inside the handler and nothing has changed.
\<close>

definition applyResponse :: "metadata option \<Rightarrow> metadata option \<Rightarrow> metadata option" where
  "applyResponse current response =
     (case response of
        None \<Rightarrow> current
      | Some r \<Rightarrow>
          if map fst r = [] then current
          else (case current of
                  None \<Rightarrow> None
                | Some m \<Rightarrow> Some (foldl (applyField (normalizeKeys r)) m fieldsToCheck)))"

section \<open>The viewer component and its asynchronous events\<close>

text \<open>
  The state of \<^verbatim>\<open>DicomViewerComponent\<close> that the metadata code reads and writes, and the
  asynchronous work it has started: the pending \<^verbatim>\<open>setTimeout\<close> callbacks, the metadata
  requests and image loads in flight (each by the image id it was started for), and the
  payloads posted by \<^verbatim>\<open>saveMetadataToServer\<close>. The fields that only drive the rendering
  (\<^verbatim>\<open>isLoading\<close>, \<^verbatim>\<open>isImageLoaded\<close>, \<^verbatim>\<open>loadError\<close>, \<^verbatim>\<open>showMetadata\<close>, the viewport) are
  left out. Of the selected image only its \<^verbatim>\<open>id\<close> is used.
\<close>

record viewer =
  selectedImage :: "nat option"
  element :: bool
  cornerstoneInitialized :: bool
  dicomMetadata :: "metadata option"
  timers :: nat
  fetches :: "nat list"
  loads :: "nat list"
  saved :: "(nat \<times> metadata) list"

definition saveMetadataToServer :: "viewer \<Rightarrow> viewer" where
  "saveMetadataToServer s =
     (case dicomMetadata s of
        None \<Rightarrow> s
      | Some m \<Rightarrow>
          (case selectedImage s of
             None \<Rightarrow> s
           | Some i \<Rightarrow> s\<lparr>saved := saved s @ [(i, m)]\<rparr>))"

definition extractDicomMetadata :: "(jsnum \<Rightarrow> string) \<Rightarrow> viewer \<Rightarrow> jsval \<Rightarrow> viewer" where
  "extractDicomMetadata nts s img =
     (case buildExtracted nts img of
        Inl e \<Rightarrow> s
      | Inr extractedMetadata \<Rightarrow>
          saveMetadataToServer
            (s\<lparr>dicomMetadata := Some (reconcile (dicomMetadata s) extractedMetadata)\<rparr>))"

definition fetchMetadataFromApi :: "viewer \<Rightarrow> viewer" where
  "fetchMetadataFromApi s =
     (case selectedImage s of
        None \<Rightarrow> s
      | Some i \<Rightarrow> s\<lparr>dicomMetadata := Some emptyMetadata, fetches := fetches s @ [i]\<rparr>)"

definition loadAndDisplayImage :: "viewer \<Rightarrow> viewer" where
  "loadAndDisplayImage s =
     (case selectedImage s of
        None \<Rightarrow> s
      | Some i \<Rightarrow>
          if \<not> element s \<or> \<not> cornerstoneInitialized s then s
          else s\<lparr>loads := loads s @ [i]\<rparr>)"

text \<open>
  \<^verbatim>\<open>ngOnChanges\<close> for a change of \<^verbatim>\<open>selectedImage\<close>, which Angular has already assigned:
  the state is reset, the metadata request is sent, and \<^verbatim>\<open>loadAndDisplayImage\<close> is left
  to a \<^verbatim>\<open>setTimeout\<close> callback of 200 ms.
\<close>

definition ngOnChanges :: "viewer \<Rightarrow> nat option \<Rightarrow> viewer" where
  "ngOnChanges s selection =
     (let s1 = s\<lparr>selectedImage := selection, dicomMetadata := None\<rparr>
      in if selection \<noteq> None \<and> element s1
         then (let s2 = fetchMetadataFromApi s1 in s2\<lparr>timers := timers s2 + 1\<rparr>)
         else s1)"

text \<open>
  \<^verbatim>\<open>ngAfterViewInit\<close>, which Angular runs once, after the first \<^verbatim>\<open>ngOnChanges\<close>: when the
  container is there, the element is set, \<^verbatim>\<open>initCornerstoneElement\<close> enables it (which
  may fail), and an image already selected is loaded at once, without a metadata
  request.
\<close>

definition initCornerstoneElement :: "viewer \<Rightarrow> bool \<Rightarrow> viewer" where
  "initCornerstoneElement s enableWorks =
     (if \<not> element s then s
      else if enableWorks then s\<lparr>cornerstoneInitialized := True\<rparr>
      else s)"

definition ngAfterViewInit :: "viewer \<Rightarrow> bool \<Rightarrow> bool \<Rightarrow> viewer" where
  "ngAfterViewInit s containerFound enableWorks =
     (if containerFound
      then (let s1 = initCornerstoneElement (s\<lparr>element := True\<rparr>) enableWorks
            in if selectedImage s1 \<noteq> None then loadAndDisplayImage s1 else s1)
      else s)"

text \<open>\<^verbatim>\<open>retryLoad\<close>, behind the retry button.\<close>

definition retryLoad :: "viewer \<Rightarrow> viewer" where
  "retryLoad s = (if selectedImage s \<noteq> None then loadAndDisplayImage s else s)"

text \<open>
  What can happen to the component: the user selects an image (or none), the view is
  initialised (with the container found or not, and the enabling of the element working
  or not), the user asks for a retry, a pending timer callback runs, the answer to a metadata request arrives, an image load resolves
  with the loaded image or is rejected. An event that cannot happen in a state (no timer
  pending, no such request or load in flight) gives \<open>None\<close>.
\<close>

datatype event =
    SelectImage "nat option"
  | AfterViewInit bool bool
  | RetryLoad
  | TimerFires
  | MetadataResponse nat "metadata option"
  | ImageLoaded nat jsval
  | ImageLoadFailed nat

fun step :: "(jsnum \<Rightarrow> string) \<Rightarrow> viewer \<Rightarrow> event \<Rightarrow> viewer option" where
  "step nts s (SelectImage selection) = Some (ngOnChanges s selection)"
| "step nts s (AfterViewInit containerFound enableWorks) =
     Some (ngAfterViewInit s containerFound enableWorks)"
| "step nts s RetryLoad = Some (retryLoad s)"
| "step nts s TimerFires =
     (if timers s = 0 then None
      else Some (loadAndDisplayImage (s\<lparr>timers := timers s - 1\<rparr>)))"
| "step nts s (MetadataResponse i response) =
     (if i \<notin> set (fetches s) then None
      else Some (s\<lparr>fetches := remove1 i (fetches s),
                   dicomMetadata := applyResponse (dicomMetadata s) response\<rparr>))"
| "step nts s (ImageLoaded i img) =
     (if i \<notin> set (loads s) then None
      else Some (extractDicomMetadata nts (s\<lparr>loads := remove1 i (loads s)\<rparr>) img))"
| "step nts s (ImageLoadFailed i) =
     (if i \<notin> set (loads s) then None
      else Some (s\<lparr>loads := remove1 i (loads s)\<rparr>))"

fun run :: "(jsnum \<Rightarrow> string) \<Rightarrow> viewer \<Rightarrow> event list \<Rightarrow> viewer option" where
  "run nts s [] = Some s"
| "run nts s (e # es) =
     (case step nts s e of None \<Rightarrow> None | Some s' \<Rightarrow> run nts s' es)"

text \<open>
  The component as constructed, and the component once its view is initialised with no
  image selected yet.
\<close>

definition created :: viewer where
  "created = \<lparr>selectedImage = None, element = False, cornerstoneInitialized = False,
              dicomMetadata = None, timers = 0, fetches = [], loads = [], saved = []\<rparr>"

definition ready :: viewer where
  "ready = \<lparr>selectedImage = None, element = True, cornerstoneInitialized = True,
            dicomMetadata = None, timers = 0, fetches = [], loads = [], saved = []\<rparr>"

section \<open>Example inputs\<close>

text \<open>
  The scenario of a stored record with only its study UID set, and a file that carries
  a patient name, another study UID and a modality.
\<close>

definition storedStudy :: metadata where
  "storedStudy = setProp emptyMetadata ''studyInstanceUid'' (Str ''1.2.3'')"

definition extractedJane :: metadata where
  "extractedJane =
     setProp (setProp (setProp emptyMetadata ''patientName'' (Str ''Jane Doe''))
                ''studyInstanceUid'' (Str ''9.9.9''))
       ''modality'' (Str ''CT'')"

text \<open>A stored record with a patient name, and a file that names another patient.\<close>

definition storedSmith :: metadata where
  "storedSmith = setProp emptyMetadata ''patientName'' (Str ''John Smith'')"

definition extractedDoe :: metadata where
  "extractedDoe = setProp emptyMetadata ''patientName'' (Str ''Jane Doe'')"

text \<open>A file whose patient name element holds the text \<^verbatim>\<open>Not available\<close>.\<close>

definition extractedUnnamed :: metadata where
  "extractedUnnamed = setProp emptyMetadata ''patientName'' (Str ''Not available'')"

text \<open>
  An element dictionary whose entry under the bare tag has a \<^verbatim>\<open>value\<close> getter that
  throws, next to a good entry under the \<^verbatim>\<open>x\<close> spelling.
\<close>

definition brokenThenGood :: jsval where
  "brokenThenGood =
     Obj [(''00100010'', Some (Obj [(''value'', None)])),
          (''x00100010'', Some (Obj [(''value'', Some (Str ''DOE^JANE''))]))]"


text \<open>A loaded image of patient Jane Doe.\<close>

definition janeImage :: jsval where
  "janeImage =
     Obj [(''imageId'', Some (Str ''wadouri:1'')),
          (''windowCenter'', Some (Num (Fin 40))),
          (''windowWidth'', Some (Num (Fin 400))),
          (''data'', Some (Obj [(''elements'', Some (Obj
             [(''x00100010'', Some (Obj [(''value'', Some (Str ''Jane Doe''))]))]))]))]"

text \<open>A loaded image whose patient name element holds the text \<^verbatim>\<open>Not available\<close>.\<close>

definition unnamedImage :: jsval where
  "unnamedImage =
     Obj [(''imageId'', Some (Str ''wadouri:1'')),
          (''windowCenter'', Some (Num (Fin 40))),
          (''windowWidth'', Some (Num (Fin 400))),
          (''data'', Some (Obj [(''elements'', Some (Obj
             [(''x00100010'', Some (Obj [(''value'', Some (Str ''Not available''))]))]))]))]"

text \<open>A stand-in for the runtime's Number-to-string conversion.\<close>

definition zeroDigits :: "jsnum \<Rightarrow> string" where
  "zeroDigits n = ''0''"

text \<open>
  What an observer sees of a run: the selected image, the patient name on display, the
  metadata requests and image loads in flight, and the image ids of the posted payloads.
\<close>

definition observe :: "viewer \<Rightarrow> nat option \<times> jsval \<times> nat list \<times> nat list \<times> nat list" where
  "observe s =
     (selectedImage s,
      (case dicomMetadata s of None \<Rightarrow> Undefined | Some m \<Rightarrow> getProp m ''patientName''),
      fetches s, loads s, map fst (saved s))"

text \<open>
  An answer of the metadata endpoint for image 1, and the component after the user has
  gone from image 1 to image 2: once with the request for image 1 still in flight, once
  with the load of image 1 still in flight.
\<close>

definition aliceResponse :: "metadata option" where
  "aliceResponse = Some [(''PatientName'', Str ''Alice''), (''StudyInstanceUid'', Str ''1.2.3'')]"

definition switchedWhileFetching :: viewer where
  "switchedWhileFetching = ngOnChanges (ngOnChanges ready (Some 1)) (Some 2)"

definition switchedWhileLoading :: viewer where
  "switchedWhileLoading =
     ngOnChanges (loadAndDisplayImage ((ngOnChanges ready (Some 1))\<lparr>timers := 0\<rparr>)) (Some 2)"

text \<open>The metadata extracted from the image of Jane Doe.\<close>

definition janeExtracted :: metadata where
  "janeExtracted = (case buildExtracted zeroDigits janeImage of Inl e \<Rightarrow> [] | Inr m \<Rightarrow> m)"

section \<open>Properties of the reconciliation\<close>

lemma getProp_setProp:
  "getProp (setProp m k v) k' = (if k' = k then v else getProp m k')"
  by (simp add: getProp_def setProp_def update_conv)

lemma map_of_setProp:
  "map_of (setProp m k v) k' = (if k' = k then Some v else map_of m k')"
  by (simp add: setProp_def update_conv)

lemma map_of_mergeKey:
  "map_of (mergeKey c m k) key =
     (if key = k \<and> nonEmptyValue (getProp c k) then Some (getProp c k) else map_of m key)"
  by (simp add: mergeKey_def Let_def map_of_setProp)

lemma map_of_mergeKeys:
  "map_of (foldl (mergeKey c) b ks) key =
     (if key \<in> set ks \<and> nonEmptyValue (getProp c key) then Some (getProp c key)
      else map_of b key)"
proof (induction ks arbitrary: b)
  case Nil
  show ?case by simp
next
  case (Cons k ks)
  have "map_of (foldl (mergeKey c) b (k # ks)) key =
        map_of (foldl (mergeKey c) (mergeKey c b k) ks) key"
    by simp
  also have "\<dots> = (if key \<in> set ks \<and> nonEmptyValue (getProp c key)
                   then Some (getProp c key) else map_of (mergeKey c b k) key)"
    by (rule Cons.IH)
  also have "\<dots> = (if key \<in> set (k # ks) \<and> nonEmptyValue (getProp c key)
                   then Some (getProp c key) else map_of b key)"
    by (auto simp: map_of_mergeKey)
  finally show ?case .
qed

lemma nonEmptyValue_absent:
  "map_of c key = None \<Longrightarrow> \<not> nonEmptyValue (getProp c key)"
  by (simp add: getProp_def nonEmptyValue_def)

lemma map_of_mergeMetadata:
  "map_of (mergeMetadata b c) key =
     (if nonEmptyValue (getProp c key) then Some (getProp c key) else map_of b key)"
proof (cases "key \<in> set (map fst c)")
  case True
  then show ?thesis by (simp add: mergeMetadata_def map_of_mergeKeys)
next
  case False
  then have "map_of c key = None" by (simp add: map_of_eq_None_iff)
  then have "\<not> nonEmptyValue (getProp c key)" by (rule nonEmptyValue_absent)
  then show ?thesis by (simp add: mergeMetadata_def map_of_mergeKeys)
qed

lemma getProp_mergeMetadata:
  "getProp (mergeMetadata b c) key =
     (if nonEmptyValue (getProp c key) then getProp c key else getProp b key)"
  by (simp add: getProp_def [of "mergeMetadata b c"] map_of_mergeMetadata) (simp add: getProp_def)

lemma mergeKeys_all_empty:
  "\<forall>k. \<not> nonEmptyValue (getProp c k) \<Longrightarrow> foldl (mergeKey c) b ks = b"
proof (induction ks arbitrary: b)
  case Nil
  show ?case by simp
next
  case (Cons k ks)
  have "mergeKey c b k = b" using Cons.prems by (simp add: mergeKey_def)
  then show ?case using Cons.IH [OF Cons.prems, of b] by simp
qed

section \<open>Properties of tag resolution\<close>

lemma getTagValue_total: "\<exists>s. getTagValue nts ds t = Inr s"
  by (simp add: getTagValue_def split: sum.split)

lemma getTag_loop_total: "\<exists>s. getTag_loop nts ds fs = Inr s"
proof (induction fs)
  case Nil
  show ?case by simp
next
  case (Cons f fs)
  obtain v where v: "getTagValue nts ds f = Inr v"
    using getTagValue_total by blast
  show ?case using Cons.IH by (simp add: v bindE_def)
qed

lemma getTagValue_swallows:
  "getTagValue_try nts dataset format = Inl e \<Longrightarrow> getTagValue nts dataset format = Inr []"
  by (simp add: getTagValue_def)

lemma getTag_total: "\<exists>s. getTag nts dataset key = Inr s"
  by (simp add: getTag_def getTag_loop_total)

lemma getTagValue_falsy_dataset:
  "\<not> truthy dataset \<Longrightarrow> getTagValue nts dataset tagName = Inr []"
  by (simp add: getTagValue_def getTagValue_try_def)

lemma getTag_loop_falsy_dataset:
  "\<not> truthy dataset \<Longrightarrow> getTag_loop nts dataset fs = Inr []"
  by (induction fs) (simp_all add: getTagValue_falsy_dataset bindE_def)






section \<open>Properties of the numeric fields\<close>

lemma of_char_range_dec:
  assumes "48 \<le> (of_char c :: nat)" "(of_char c :: nat) \<le> 57"
  shows "c \<in> set ''0123456789''"
proof -
  define n :: nat where "n = of_char c"
  have "n = 48 \<or> n = 49 \<or> n = 50 \<or> n = 51 \<or> n = 52 \<or> n = 53 \<or> n = 54 \<or> n = 55
        \<or> n = 56 \<or> n = 57"
    using assms unfolding n_def [symmetric] by arith
  then have "\<exists>d \<in> set ''0123456789''. (of_char d :: nat) = n" by auto
  then obtain d where d: "d \<in> set ''0123456789''" "(of_char d :: nat) = of_char c"
    unfolding n_def by blast
  from d(2) have "d = c" by simp
  with d(1) show ?thesis by simp
qed

lemma decDigit_iff: "isRadixDigit 10 c = (c \<in> set ''0123456789'')"
proof
  assume "isRadixDigit 10 c"
  then have "48 \<le> (of_char c :: nat) \<and> (of_char c :: nat) \<le> 57"
    by (auto simp: isRadixDigit_def digitValue_def Let_def split: if_splits)
  then show "c \<in> set ''0123456789''" using of_char_range_dec by blast
next
  assume "c \<in> set ''0123456789''"
  then show "isRadixDigit 10 c"
    by (auto simp: isRadixDigit_def digitValue_def)
qed

lemma digitValue_dec:
  "c \<in> set ''0123456789'' \<Longrightarrow> digitValue c = Some (of_char c - 48)"
  by (auto simp: digitValue_def)


lemma of_char_range_hex:
  assumes "(97 \<le> (of_char c :: nat) \<and> (of_char c :: nat) \<le> 102) \<or>
           (65 \<le> (of_char c :: nat) \<and> (of_char c :: nat) \<le> 70)"
  shows "c \<in> set ''abcdefABCDEF''"
proof -
  define n :: nat where "n = of_char c"
  have "n = 97 \<or> n = 98 \<or> n = 99 \<or> n = 100 \<or> n = 101 \<or> n = 102 \<or>
        n = 65 \<or> n = 66 \<or> n = 67 \<or> n = 68 \<or> n = 69 \<or> n = 70"
    using assms unfolding n_def [symmetric] by arith
  then have "\<exists>d \<in> set ''abcdefABCDEF''. (of_char d :: nat) = n" by auto
  then obtain d where d: "d \<in> set ''abcdefABCDEF''" "(of_char d :: nat) = of_char c"
    unfolding n_def by blast
  from d(2) have "d = c" by simp
  with d(1) show ?thesis by simp
qed

lemma hexDigit_iff: "isRadixDigit 16 c = (c \<in> set ''0123456789abcdefABCDEF'')"
proof
  assume "isRadixDigit 16 c"
  then have "(48 \<le> (of_char c :: nat) \<and> (of_char c :: nat) \<le> 57) \<or>
      (97 \<le> (of_char c :: nat) \<and> (of_char c :: nat) \<le> 102) \<or>
      (65 \<le> (of_char c :: nat) \<and> (of_char c :: nat) \<le> 70)"
    by (auto simp: isRadixDigit_def digitValue_def Let_def split: if_splits)
  then have "c \<in> set ''0123456789'' \<or> c \<in> set ''abcdefABCDEF''"
    using of_char_range_dec of_char_range_hex by blast
  then show "c \<in> set ''0123456789abcdefABCDEF''" by auto
next
  assume "c \<in> set ''0123456789abcdefABCDEF''"
  then show "isRadixDigit 16 c"
    by (auto simp: isRadixDigit_def digitValue_def)
qed

lemma digitsValue_dec:
  "set ds \<subseteq> set ''0123456789'' \<Longrightarrow>
   digitsValue 10 ds = foldl (\<lambda>a c. a * 10 + (int (of_char c) - 48)) 0 ds"
proof -
  assume h: "set ds \<subseteq> set ''0123456789''"
  have "foldl (\<lambda>a c. a * int 10 + int (case digitValue c of None \<Rightarrow> 0 | Some d \<Rightarrow> d)) a ds
        = foldl (\<lambda>a c. a * 10 + (int (of_char c) - 48)) a ds" for a
    using h
  proof (induction ds arbitrary: a)
    case Nil
    show ?case by simp
  next
    case (Cons c cs)
    have c: "c \<in> set ''0123456789''" using Cons.prems by simp
    have "int (case digitValue c of None \<Rightarrow> 0 | Some d \<Rightarrow> d) = int (of_char c) - 48"
      using c by (auto simp: digitValue_def)
    then show ?case using Cons.IH Cons.prems by simp
  qed
  then show ?thesis by (simp add: digitsValue_def)
qed

lemma trimStart_frame:
  assumes "set ws \<subseteq> set [CHR 0x09, CHR 0x0A, CHR 0x0B, CHR 0x0C, CHR 0x0D, CHR 0x20, CHR 0xA0]"
    and "t = [] \<or> hd t \<notin> set [CHR 0x09, CHR 0x0A, CHR 0x0B, CHR 0x0C, CHR 0x0D, CHR 0x20, CHR 0xA0]"
  shows "trimStart (ws @ t) = t"
proof -
  have "\<And>x. x \<in> set ws \<Longrightarrow> isWhiteSpace x"
    using assms(1) unfolding isWhiteSpace_def by blast
  then have "dropWhile isWhiteSpace (ws @ t) = dropWhile isWhiteSpace t"
    by (rule dropWhile_append2)
  moreover have "dropWhile isWhiteSpace t = t"
    using assms(2) by (cases t) (simp_all add: isWhiteSpace_def)
  ultimately show ?thesis by (simp add: trimStart_def)
qed

lemma signed_frame:
  assumes "set ws \<subseteq> set [CHR 0x09, CHR 0x0A, CHR 0x0B, CHR 0x0C, CHR 0x0D, CHR 0x20, CHR 0xA0]"
    and "sg \<in> {[], ''+'', ''-''}"
    and "sg = [] \<longrightarrow> body = [] \<or>
           hd body \<notin> set [CHR 0x09, CHR 0x0A, CHR 0x0B, CHR 0x0C, CHR 0x0D, CHR 0x20, CHR 0xA0,
                           CHR ''+'', CHR ''-'']"
  shows "trimStart (ws @ sg @ body) = sg @ body"
    and "isNegative (sg @ body) = (sg = ''-'')"
    and "dropSign (sg @ body) = body"
proof -
  have "sg @ body = [] \<or>
     hd (sg @ body) \<notin> set [CHR 0x09, CHR 0x0A, CHR 0x0B, CHR 0x0C, CHR 0x0D, CHR 0x20, CHR 0xA0]"
    using assms(2,3) by auto
  then show "trimStart (ws @ sg @ body) = sg @ body"
    using assms(1) by (rule trimStart_frame [rotated])
  show "isNegative (sg @ body) = (sg = ''-'')"
    using assms(2,3) by (cases body) auto
  show "dropSign (sg @ body) = body"
    using assms(2,3) by (cases body) auto
qed

lemma toNumber_not_NaN: "toNumber q \<noteq> NaN"
  by (simp add: toNumber_def roundPositive_def Let_def split: jsnum.split)

lemma takeWhile_empty_iff: "(takeWhile P xs = []) = (xs = [] \<or> \<not> P (hd xs))"
  by (cases xs) auto


lemma parseInt_frame:
  assumes "set ws \<subseteq> set [CHR 0x09, CHR 0x0A, CHR 0x0B, CHR 0x0C, CHR 0x0D, CHR 0x20, CHR 0xA0]"
    and "sg \<in> {[], ''+'', ''-''}"
    and "sg = [] \<longrightarrow> body = [] \<or>
           hd body \<notin> set [CHR 0x09, CHR 0x0A, CHR 0x0B, CHR 0x0C, CHR 0x0D, CHR 0x20, CHR 0xA0,
                           CHR ''+'', CHR ''-'']"
  shows "parseInt (ws @ sg @ body) =
     (let hex = (startsWith body ''0x'' \<or> startsWith body ''0X'');
          R = (if hex then 16 else 10);
          Z = takeWhile (isRadixDigit R) (if hex then drop 2 body else body)
      in if Z = [] then NaN
         else toNumber (of_int ((if sg = ''-'' then - 1 else 1) * digitsValue R Z)))"
  by (simp add: parseInt_def Let_def signed_frame [OF assms])

lemma parseFloat_frame:
  assumes "set ws \<subseteq> set [CHR 0x09, CHR 0x0A, CHR 0x0B, CHR 0x0C, CHR 0x0D, CHR 0x20, CHR 0xA0]"
    and "sg \<in> {[], ''+'', ''-''}"
    and "sg = [] \<longrightarrow> body = [] \<or>
           hd body \<notin> set [CHR 0x09, CHR 0x0A, CHR 0x0B, CHR 0x0C, CHR 0x0D, CHR 0x20, CHR 0xA0,
                           CHR ''+'', CHR ''-'']"
  shows "parseFloat (ws @ sg @ body) =
     (if startsWith body ''Infinity'' then (if sg = ''-'' then NegInf else PosInf)
      else
        let ip = takeWhile (isRadixDigit 10) body;
            r1 = drop (length ip) body;
            fp = (if startsWith r1 ''.'' then takeWhile (isRadixDigit 10) (drop 1 r1) else []);
            r2 = (if startsWith r1 ''.'' then drop (1 + length fp) r1 else r1)
        in if ip = [] \<and> fp = [] then NaN
           else toNumber (scale10 ((if sg = ''-'' then - 1 else 1) *
                    (of_int (digitsValue 10 ip) + of_int (digitsValue 10 fp) / 10 ^ length fp))
                  (exponentOf r2)))"
  unfolding parseFloat_def Let_def signed_frame [OF assms] by (rule refl)

lemma parseInt_NaN_iff:
  assumes "set ws \<subseteq> set [CHR 0x09, CHR 0x0A, CHR 0x0B, CHR 0x0C, CHR 0x0D, CHR 0x20, CHR 0xA0]"
    and "sg \<in> {[], ''+'', ''-''}"
    and "sg = [] \<longrightarrow> body = [] \<or>
           hd body \<notin> set [CHR 0x09, CHR 0x0A, CHR 0x0B, CHR 0x0C, CHR 0x0D, CHR 0x20, CHR 0xA0,
                           CHR ''+'', CHR ''-'']"
  shows "(parseInt (ws @ sg @ body) = NaN) =
     (body = [] \<or> hd body \<notin> set ''0123456789'' \<or>
      (\<exists>rest. (body = ''0x'' @ rest \<or> body = ''0X'' @ rest) \<and>
              (rest = [] \<or> hd rest \<notin> set ''0123456789abcdefABCDEF'')))"
proof (cases "startsWith body ''0x'' \<or> startsWith body ''0X''")
  case True
  then obtain rest where r: "body = ''0x'' @ rest \<or> body = ''0X'' @ rest"
    unfolding startsWith_def by (metis append_take_drop_id length_Cons list.size(3))
  have d: "drop 2 body = rest" using r by auto
  have nz: "body \<noteq> [] \<and> hd body \<in> set ''0123456789''" using r by auto
  have u: "\<And>rest'. (body = ''0x'' @ rest' \<or> body = ''0X'' @ rest') \<Longrightarrow> rest' = rest"
    using r by auto
  have "(parseInt (ws @ sg @ body) = NaN) = (rest = [] \<or> \<not> isRadixDigit 16 (hd rest))"
    using True by (simp add: parseInt_frame [OF assms] Let_def d toNumber_not_NaN
        takeWhile_empty_iff)
  also have "\<dots> = (rest = [] \<or> hd rest \<notin> set ''0123456789abcdefABCDEF'')"
    by (simp only: hexDigit_iff)
  also have "\<dots> = (body = [] \<or> hd body \<notin> set ''0123456789'' \<or>
      (\<exists>rest. (body = ''0x'' @ rest \<or> body = ''0X'' @ rest) \<and>
              (rest = [] \<or> hd rest \<notin> set ''0123456789abcdefABCDEF'')))"
    using nz r u by blast
  finally show ?thesis .
next
  case False
  then have n: "\<And>rest. \<not> (body = ''0x'' @ rest \<or> body = ''0X'' @ rest)"
    unfolding startsWith_def by auto
  have "(parseInt (ws @ sg @ body) = NaN) = (body = [] \<or> \<not> isRadixDigit 10 (hd body))"
    using False by (simp add: parseInt_frame [OF assms] Let_def toNumber_not_NaN
        takeWhile_empty_iff)
  also have "\<dots> = (body = [] \<or> hd body \<notin> set ''0123456789'')"
    by (simp only: decDigit_iff)
  also have "\<dots> = (body = [] \<or> hd body \<notin> set ''0123456789'' \<or>
      (\<exists>rest. (body = ''0x'' @ rest \<or> body = ''0X'' @ rest) \<and>
              (rest = [] \<or> hd rest \<notin> set ''0123456789abcdefABCDEF'')))"
    using n by blast
  finally show ?thesis .
qed

lemma startsWith_Infinity: "startsWith body ''Infinity'' = (take 8 body = ''Infinity'')"
proof -
  have "length ''Infinity'' = 8" by simp
  then show ?thesis unfolding startsWith_def by (simp only:)
qed

lemma parseFloat_NaN_iff:
  assumes "set ws \<subseteq> set [CHR 0x09, CHR 0x0A, CHR 0x0B, CHR 0x0C, CHR 0x0D, CHR 0x20, CHR 0xA0]"
    and "sg \<in> {[], ''+'', ''-''}"
    and "sg = [] \<longrightarrow> body = [] \<or>
           hd body \<notin> set [CHR 0x09, CHR 0x0A, CHR 0x0B, CHR 0x0C, CHR 0x0D, CHR 0x20, CHR 0xA0,
                           CHR ''+'', CHR ''-'']"
  shows "(parseFloat (ws @ sg @ body) = NaN) =
     (\<not> (body \<noteq> [] \<and> hd body \<in> set ''0123456789'') \<and>
      \<not> (\<exists>d rest. body = CHR ''.'' # d # rest \<and> d \<in> set ''0123456789'') \<and>
      take 8 body \<noteq> ''Infinity'')"
proof (cases "startsWith body ''Infinity''")
  case True
  then have "take 8 body = ''Infinity''" using startsWith_Infinity by blast
  then show ?thesis using True by (simp add: parseFloat_frame [OF assms])
next
  case False
  then have i: "take 8 body \<noteq> ''Infinity''" using startsWith_Infinity by blast
  show ?thesis
  proof (cases "body \<noteq> [] \<and> hd body \<in> set ''0123456789''")
    case True
    then have "takeWhile (isRadixDigit 10) body \<noteq> []"
      by (simp add: takeWhile_empty_iff decDigit_iff)
    then show ?thesis using True False
      by (simp add: parseFloat_frame [OF assms] Let_def toNumber_not_NaN)
  next
    case nd: False
    then have ip: "takeWhile (isRadixDigit 10) body = []"
      by (auto simp add: takeWhile_empty_iff decDigit_iff)
    have "(parseFloat (ws @ sg @ body) = NaN) =
        (\<not> (startsWith body ''.'' \<and> takeWhile (isRadixDigit 10) (drop 1 body) \<noteq> []))"
      unfolding parseFloat_frame [OF assms] Let_def ip
      using False by (simp add: toNumber_not_NaN)
    also have "(startsWith body ''.'' \<and> takeWhile (isRadixDigit 10) (drop 1 body) \<noteq> []) =
        (\<exists>d rest. body = CHR ''.'' # d # rest \<and> d \<in> set ''0123456789'')"
    proof (cases body)
      case Nil
      then show ?thesis by (simp add: startsWith_def)
    next
      case (Cons c cs)
      then show ?thesis
        by (cases cs) (auto simp: startsWith_def takeWhile_empty_iff decDigit_iff)
    qed
    finally show ?thesis using nd i by blast
  qed
qed


lemma takeWhile_digits:
  assumes "set ds \<subseteq> set ''0123456789''" "rest = [] \<or> hd rest \<notin> set ''0123456789''"
  shows "takeWhile (isRadixDigit 10) (ds @ rest) = ds"
proof -
  have "\<And>x. x \<in> set ds \<Longrightarrow> isRadixDigit 10 x"
    using assms(1) by (auto simp only: decDigit_iff)
  then have "takeWhile (isRadixDigit 10) (ds @ rest) = ds @ takeWhile (isRadixDigit 10) rest"
    by (rule takeWhile_append2)
  moreover have "takeWhile (isRadixDigit 10) rest = []"
    using assms(2) by (simp only: takeWhile_empty_iff decDigit_iff)
  ultimately show ?thesis by simp
qed

lemma exponentOf_none:
  "rest = [] \<or> hd rest \<notin> {CHR ''e'', CHR ''E''} \<Longrightarrow> exponentOf rest = 0"
  by (cases rest) (auto simp: exponentOf_def)

lemma not_hex_prefix:
  assumes "ds \<noteq> []" "set ds \<subseteq> set ''0123456789''"
    and "\<not> (ds = ''0'' \<and> rest \<noteq> [] \<and> hd rest \<in> {CHR ''x'', CHR ''X''})"
  shows "\<not> (startsWith (ds @ rest) ''0x'' \<or> startsWith (ds @ rest) ''0X'')"
proof (cases ds)
  case Nil
  then show ?thesis using assms(1) by simp
next
  case (Cons d ds')
  show ?thesis
  proof (cases ds')
    case Nil
    then show ?thesis using Cons assms(3) by (cases rest) (auto simp: startsWith_def)
  next
    case (Cons d' ds'')
    have "d' \<in> set ''0123456789''" using assms(2) \<open>ds = d # ds'\<close> Cons by simp
    then have "d' \<noteq> CHR ''x'' \<and> d' \<noteq> CHR ''X''" by auto
    then show ?thesis using \<open>ds = d # ds'\<close> Cons by (simp add: startsWith_def)
  qed
qed

lemma parseInt_decimal:
  assumes "set ws \<subseteq> set [CHR 0x09, CHR 0x0A, CHR 0x0B, CHR 0x0C, CHR 0x0D, CHR 0x20, CHR 0xA0]"
    and "sg \<in> {[], ''+'', ''-''}"
    and "ds \<noteq> []" and "set ds \<subseteq> set ''0123456789''"
    and "rest = [] \<or> hd rest \<notin> set ''0123456789''"
    and "\<not> (ds = ''0'' \<and> rest \<noteq> [] \<and> hd rest \<in> {CHR ''x'', CHR ''X''})"
  shows "parseInt (ws @ sg @ ds @ rest) =
     toNumber (of_int ((if sg = ''-'' then - 1 else 1) *
       foldl (\<lambda>a c. a * 10 + (int (of_char c) - 48)) 0 ds))"
proof -
  have "hd (ds @ rest) \<in> set ''0123456789''" using assms(3,4) by (cases ds) auto
  then have f: "sg = [] \<longrightarrow> ds @ rest = [] \<or>
      hd (ds @ rest) \<notin> set [CHR 0x09, CHR 0x0A, CHR 0x0B, CHR 0x0C, CHR 0x0D, CHR 0x20, CHR 0xA0,
                             CHR ''+'', CHR ''-'']"
    by auto
  note nh = not_hex_prefix [OF assms(3,4,6)]
  note tw = takeWhile_digits [OF assms(4,5)]
  show ?thesis
    unfolding parseInt_frame [OF assms(1,2) f] Let_def
    using nh assms(3) by (simp add: tw digitsValue_dec [OF assms(4)])
qed

lemma digitsValue_Nil: "digitsValue R [] = 0"
  by (simp add: digitsValue_def)

lemma not_Infinity_prefix:
  "body \<noteq> [] \<Longrightarrow> hd body \<in> set ''0123456789.'' \<Longrightarrow> \<not> startsWith body ''Infinity''"
  by (cases body) (auto simp: startsWith_def)

lemma parseFloat_integer:
  assumes "set ws \<subseteq> set [CHR 0x09, CHR 0x0A, CHR 0x0B, CHR 0x0C, CHR 0x0D, CHR 0x20, CHR 0xA0]"
    and "sg \<in> {[], ''+'', ''-''}"
    and "ds \<noteq> []" and "set ds \<subseteq> set ''0123456789''"
    and "rest = [] \<or> hd rest \<notin> set ''0123456789.eE''"
  shows "parseFloat (ws @ sg @ ds @ rest) =
     toNumber ((if sg = ''-'' then - 1 else 1) *
       of_int (foldl (\<lambda>a c. a * 10 + (int (of_char c) - 48)) 0 ds))"
proof -
  have h: "hd (ds @ rest) \<in> set ''0123456789''" using assms(3,4) by (cases ds) auto
  then have f: "sg = [] \<longrightarrow> ds @ rest = [] \<or>
      hd (ds @ rest) \<notin> set [CHR 0x09, CHR 0x0A, CHR 0x0B, CHR 0x0C, CHR 0x0D, CHR 0x20, CHR 0xA0,
                             CHR ''+'', CHR ''-'']"
    by auto
  have ni: "\<not> startsWith (ds @ rest) ''Infinity''"
    using h assms(3) by (intro not_Infinity_prefix) auto
  have r: "rest = [] \<or> hd rest \<notin> set ''0123456789''" using assms(5) by auto
  note tw = takeWhile_digits [OF assms(4) r]
  have nd: "\<not> startsWith rest ''.''" using assms(5) by (cases rest) (auto simp: startsWith_def)
  have ex: "exponentOf rest = 0" using assms(5) by (intro exponentOf_none) auto
  show ?thesis
    unfolding parseFloat_frame [OF assms(1,2) f] Let_def tw
    using ni nd assms(3)
    by (simp add: ex scale10_def digitsValue_dec [OF assms(4)] digitsValue_Nil)
qed

lemma parseFloat_fraction:
  assumes "set ws \<subseteq> set [CHR 0x09, CHR 0x0A, CHR 0x0B, CHR 0x0C, CHR 0x0D, CHR 0x20, CHR 0xA0]"
    and "sg \<in> {[], ''+'', ''-''}"
    and "ip @ fp \<noteq> []" and "set ip \<subseteq> set ''0123456789''" and "set fp \<subseteq> set ''0123456789''"
    and "rest = [] \<or> hd rest \<notin> set ''0123456789eE''"
  shows "parseFloat (ws @ sg @ ip @ CHR ''.'' # fp @ rest) =
     toNumber ((if sg = ''-'' then - 1 else 1) *
       (of_int (foldl (\<lambda>a c. a * 10 + (int (of_char c) - 48)) 0 ip) +
        of_int (foldl (\<lambda>a c. a * 10 + (int (of_char c) - 48)) 0 fp) / 10 ^ length fp))"
proof -
  let ?body = "ip @ CHR ''.'' # fp @ rest"
  have h: "hd ?body \<in> set ''0123456789.''" using assms(4) by (cases ip) auto
  then have f: "sg = [] \<longrightarrow> ?body = [] \<or>
      hd ?body \<notin> set [CHR 0x09, CHR 0x0A, CHR 0x0B, CHR 0x0C, CHR 0x0D, CHR 0x20, CHR 0xA0,
                       CHR ''+'', CHR ''-'']"
    by auto
  have ni: "\<not> startsWith ?body ''Infinity''"
    using h by (intro not_Infinity_prefix) auto
  have tw1: "takeWhile (isRadixDigit 10) ?body = ip"
    by (rule takeWhile_digits [OF assms(4)]) simp
  have r: "rest = [] \<or> hd rest \<notin> set ''0123456789''" using assms(6) by auto
  note tw2 = takeWhile_digits [OF assms(5) r]
  have ex: "exponentOf rest = 0" using assms(6) by (intro exponentOf_none) auto
  have dot: "startsWith (CHR ''.'' # fp @ rest) ''.''" by (simp add: startsWith_def)
  show ?thesis
    unfolding parseFloat_frame [OF assms(1,2) f] Let_def tw1
    using ni assms(3) dot
    by (auto simp add: tw2 ex scale10_def digitsValue_dec [OF assms(4)]
        digitsValue_dec [OF assms(5)])
qed


lemma intField_nonempty: "raw \<noteq> [] \<Longrightarrow> intField raw = parseInt raw"
  by (simp add: intField_def orStr_def)

lemma floatField_nonempty: "raw \<noteq> [] \<Longrightarrow> floatField raw = parseFloat raw"
  by (simp add: floatField_def orStr_def)

lemma bitLength_pos:
  "0 < n \<Longrightarrow> 1 \<le> bitLength n \<and> 2 ^ nat (bitLength n - 1) \<le> n \<and> n < 2 ^ nat (bitLength n)"
proof (induction n rule: bitLength.induct)
  case (1 n)
  show ?case
  proof (cases "n = 1")
    case True
    have "bitLength 1 = 1" by (simp add: bitLength.simps [of 1] bitLength.simps [of 0])
    then show ?thesis using True by simp
  next
    case False
    with "1.prems" have n2: "2 \<le> n" by simp
    then have p: "0 < n div 2" by simp
    have e: "bitLength n = 1 + bitLength (n div 2)"
      using "1.prems" by (simp add: bitLength.simps [of n])
    from "1.IH" p "1.prems" have ih: "1 \<le> bitLength (n div 2) \<and>
        2 ^ nat (bitLength (n div 2) - 1) \<le> n div 2 \<and> n div 2 < 2 ^ nat (bitLength (n div 2))"
      by simp
    define k where "k = nat (bitLength (n div 2) - 1)"
    have k: "bitLength (n div 2) = int k + 1" using ih by (simp add: k_def)
    have lo: "(2::int) ^ k \<le> n div 2" using ih by (simp add: k_def)
    have hi: "n div 2 < (2::int) ^ (k + 1)" using ih k by (simp add: nat_add_distrib)
    have "(2::int) ^ (k + 1) \<le> n" using lo by simp
    moreover have "n < (2::int) ^ (k + 2)" using hi by simp
    ultimately show ?thesis using e k by (simp add: nat_add_distrib)
  qed
qed


lemma pow2_powi: "pow2 e = 2 powi e"
  by (simp add: pow2_def power_int_def inverse_eq_divide power_one_over)

lemma pow2_pos: "0 < pow2 e"
  by (simp add: pow2_powi)

lemma pow2_add: "pow2 (a + b) = pow2 a * pow2 b"
  by (simp add: pow2_powi power_int_add)

lemma pow2_mono: "a \<le> b \<Longrightarrow> pow2 a \<le> pow2 b"
  by (simp add: pow2_powi power_int_increasing)

lemma pow2_strict_mono: "a < b \<Longrightarrow> pow2 a < pow2 b"
  by (simp add: pow2_powi power_int_strict_increasing)

lemma pow2_less_imp: "pow2 a < pow2 b \<Longrightarrow> a < b"
  using pow2_mono [of b a] by (cases "a < b") auto

lemma pow2_nat: "0 \<le> e \<Longrightarrow> pow2 e = 2 ^ nat e"
  by (simp add: pow2_def)

lemma of_int_bitLength:
  assumes "0 < n"
  shows "pow2 (bitLength n - 1) \<le> of_int n" and "of_int n < pow2 (bitLength n)"
proof -
  note b = bitLength_pos [OF assms]
  have "(of_int ((2::int) ^ nat (bitLength n - 1)) :: rat) \<le> of_int n"
    using b by (simp only: of_int_le_iff)
  then show "pow2 (bitLength n - 1) \<le> of_int n" using b by (simp add: pow2_nat)
  have "(of_int n :: rat) < of_int ((2::int) ^ nat (bitLength n))"
    using b by (simp only: of_int_less_iff)
  then show "of_int n < pow2 (bitLength n)" using b by (simp add: pow2_nat)
qed

lemma binade_bounds:
  assumes "0 < q"
  shows "pow2 (binade q) \<le> q" and "q < pow2 (binade q + 1)"
proof -
  obtain a b where ab: "quotient_of q = (a, b)" by (cases "quotient_of q") auto
  have bpos: "0 < b" using ab by (rule quotient_of_denom_pos)
  have q: "q = of_int a / of_int b" using ab by (rule quotient_of_div)
  have apos: "0 < a"
  proof (rule ccontr)
    assume "\<not> 0 < a"
    then have "of_int a / (of_int b :: rat) \<le> 0"
      using bpos by (simp add: divide_nonpos_pos)
    then show False using assms q by simp
  qed
  have qb: "q * of_int b = of_int a" using q bpos by simp
  define la where "la = bitLength a"
  define lb where "lb = bitLength b"
  note A = of_int_bitLength [OF apos, folded la_def]
  note B = of_int_bitLength [OF bpos, folded lb_def]
  have bp: "(0::rat) < of_int b" using bpos by simp
  have up: "q < pow2 (la - lb + 1)"
  proof -
    have "q * of_int b < pow2 la" using A(2) qb by simp
    also have "pow2 la = pow2 (la - lb + 1) * pow2 (lb - 1)"
      by (simp add: pow2_add [symmetric])
    also have "\<dots> \<le> pow2 (la - lb + 1) * of_int b"
      using B(1) pow2_pos [of "la - lb + 1"] by (simp add: mult_left_mono)
    finally show ?thesis using bp by simp
  qed
  have lo: "pow2 (la - lb - 1) \<le> q"
  proof -
    have "pow2 (la - lb - 1) * of_int b \<le> pow2 (la - lb - 1) * pow2 lb"
      using B(2) pow2_pos [of "la - lb - 1"] by (simp add: mult_left_mono)
    also have "\<dots> = pow2 (la - 1)" by (simp add: pow2_add [symmetric])
    also have "\<dots> \<le> q * of_int b" using A(1) qb by simp
    finally show ?thesis using bp by simp
  qed
  have bd: "binade q = (if pow2 (la - lb) \<le> q then la - lb else la - lb - 1)"
    by (simp add: binade_def Let_def ab la_def lb_def)
  show "pow2 (binade q) \<le> q" using lo by (simp add: bd)
  show "q < pow2 (binade q + 1)" using up by (auto simp: bd)
qed


lemma roundHalfEven_of_int: "roundHalfEven (of_int k) = k"
  by (simp add: roundHalfEven_def)

lemma roundHalfEven_ge_floor: "\<lfloor>m\<rfloor> \<le> roundHalfEven m"
  by (simp add: roundHalfEven_def Let_def)

lemma roundPositive_exact:
  assumes "0 < n" "n < 2 ^ 53"
  shows "roundPositive (of_int n) = Fin (of_int n)"
proof -
  define e where "e = binade (of_int n)"
  have np: "(0::rat) < of_int n" using assms(1) by simp
  note bb = binade_bounds [OF np, folded e_def]
  have "pow2 0 \<le> of_int n" using assms(1) by (simp add: pow2_def)
  then have "pow2 0 < pow2 (e + 1)" using bb(2) by simp
  then have e0: "0 \<le> e" using pow2_less_imp [of 0 "e + 1"] by simp
  have "(of_int n :: rat) < of_int (2 ^ 53)" using assms(2) by (simp only: of_int_less_iff)
  then have "(of_int n :: rat) < pow2 53" by (simp add: pow2_def)
  then have "pow2 e < pow2 53" using bb(1) by simp
  then have e52: "e \<le> 52" using pow2_less_imp [of e 53] by simp
  have mx: "max e (- 1022) = e" using e0 by simp
  define k where "k = n * 2 ^ nat (52 - e)"
  have u: "pow2 (e - 52) * pow2 (52 - e) = 1"
    by (simp add: pow2_add [symmetric] pow2_def)
  have p: "pow2 (52 - e) = of_int (2 ^ nat (52 - e))" using e52 by (simp add: pow2_nat)
  have dv: "of_int n / pow2 (e - 52) = of_int k"
  proof -
    have "of_int n / pow2 (e - 52) = of_int n * pow2 (52 - e)"
      using u pow2_pos [of "e - 52"] by (simp add: field_simps)
    then show ?thesis by (simp add: p k_def)
  qed
  have bk: "of_int k * pow2 (e - 52) = (of_int n :: rat)"
  proof -
    have "of_int k * pow2 (e - 52) = of_int n * (pow2 (52 - e) * pow2 (e - 52))"
      by (simp add: k_def p)
    then show ?thesis using u by (simp add: mult.commute)
  qed
  have small: "\<not> pow2 1024 \<le> (of_int n :: rat)"
  proof -
    have "(of_int n :: rat) < pow2 53" by fact
    also have "pow2 53 \<le> pow2 1024" by (rule pow2_mono) simp
    finally show ?thesis by simp
  qed
  show ?thesis
    unfolding roundPositive_def Let_def e_def [symmetric] mx dv roundHalfEven_of_int bk
    using small by simp
qed

lemma toNumber_exact:
  assumes "\<bar>n\<bar> < 2 ^ 53"
  shows "toNumber (of_int n) = Fin (of_int n)"
proof (cases "n = 0")
  case True
  then show ?thesis by (simp add: toNumber_def)
next
  case False
  show ?thesis
  proof (cases "0 < n")
    case True
    then have "roundPositive (of_int n) = Fin (of_int n)"
      using assms by (intro roundPositive_exact) auto
    then show ?thesis using True by (simp add: toNumber_def)
  next
    case neg: False
    then have m: "0 < - n" "- n < 2 ^ 53" using False assms by auto
    have "roundPositive (of_int (- n)) = Fin (of_int (- n))"
      using m by (rule roundPositive_exact)
    then have "roundPositive (- of_int n) = Fin (- of_int n)" by simp
    then show ?thesis using neg False by (simp add: toNumber_def)
  qed
qed

lemma toNumber_overflow:
  assumes "pow2 1024 \<le> q"
  shows "toNumber q = PosInf"
proof -
  have qp: "0 < q" using assms pow2_pos [of 1024] by simp
  define e where "e = binade q"
  note bb = binade_bounds [OF qp, folded e_def]
  have "pow2 1024 < pow2 (e + 1)" using assms bb(2) by simp
  then have e: "1024 \<le> e" using pow2_less_imp [of 1024 "e + 1"] by simp
  then have mx: "max e (- 1022) = e" by simp
  define ulp where "ulp = pow2 (e - 52)"
  have up: "0 < ulp" by (simp add: ulp_def pow2_pos)
  have "pow2 52 * ulp = pow2 e" by (simp add: ulp_def pow2_add [symmetric])
  then have "pow2 52 * ulp \<le> q" using bb(1) by simp
  then have "pow2 52 \<le> q / ulp" using up by (simp add: pos_le_divide_eq)
  then have "of_int (2 ^ 52) \<le> q / ulp" by (simp add: pow2_def)
  then have "2 ^ 52 \<le> \<lfloor>q / ulp\<rfloor>" by (simp only: le_floor_iff)
  then have "2 ^ 52 \<le> roundHalfEven (q / ulp)"
    using roundHalfEven_ge_floor [of "q / ulp"] by linarith
  then have "(of_int (2 ^ 52) :: rat) \<le> of_int (roundHalfEven (q / ulp))"
    by (simp only: of_int_le_iff)
  then have "pow2 52 * ulp \<le> of_int (roundHalfEven (q / ulp)) * ulp"
    using up by (simp add: pow2_def)
  then have "pow2 e \<le> of_int (roundHalfEven (q / ulp)) * ulp"
    using \<open>pow2 52 * ulp = pow2 e\<close> by simp
  moreover have "pow2 1024 \<le> pow2 e" using e by (rule pow2_mono)
  ultimately have big: "pow2 1024 \<le> of_int (roundHalfEven (q / ulp)) * ulp" by simp
  have "roundPositive q = PosInf"
    unfolding roundPositive_def Let_def e_def [symmetric] mx ulp_def [symmetric]
    using big by simp
  then show ?thesis using qp by (simp add: toNumber_def)
qed

lemma toNumber_underflow:
  assumes "0 \<le> q" "q < pow2 (- 1075)"
  shows "toNumber q = Fin 0"
proof (cases "q = 0")
  case True
  then show ?thesis by (simp add: toNumber_def)
next
  case False
  then have qp: "0 < q" using assms(1) by simp
  define e where "e = binade q"
  note bb = binade_bounds [OF qp, folded e_def]
  have "pow2 e < pow2 (- 1075)" using bb(1) assms(2) by simp
  then have "e < - 1075" by (rule pow2_less_imp)
  then have mx: "max e (- 1022) = - 1022" by simp
  have h: "pow2 (- 1075) = pow2 (- 1074) / 2"
    using pow2_add [of "- 1074" "- 1"] by (simp add: pow2_def)
  have p: "0 < pow2 (- 1074)" by (rule pow2_pos)
  have m0: "0 \<le> q / pow2 (- 1074)" using qp p by simp
  have m1: "q / pow2 (- 1074) < 1 / 2"
    using assms(2) p unfolding h by (simp add: field_simps)
  have m2: "q / pow2 (- 1074) < 1" using m1 by linarith
  have fl: "\<lfloor>q / pow2 (- 1074)\<rfloor> = 0" using m0 m2 by (simp only: floor_eq_iff) simp
  have "roundHalfEven (q / pow2 (- 1074)) = 0"
    using m1 by (simp add: roundHalfEven_def Let_def fl)
  then have "roundPositive q = Fin 0"
    unfolding roundPositive_def Let_def e_def [symmetric] mx
    using pow2_pos [of 1024] by simp
  then show ?thesis using qp by (simp add: toNumber_def)
qed

lemma toNumber_zero: "toNumber 0 = Fin 0"
  by (simp add: toNumber_def)

lemma intField_empty: "intField [] = Fin 0"
  using parseInt_decimal [of "[]" "[]" "''0''" "[]"]
  by (simp add: intField_def orStr_def toNumber_zero)

lemma floatField_empty: "floatField [] = Fin 0"
  using parseFloat_integer [of "[]" "[]" "''0''" "[]"]
  by (simp add: floatField_def orStr_def toNumber_zero)

lemma ex512: "intField ''512'' = Fin 512"
  using parseInt_decimal [of "[]" "[]" "''512''" "[]"] toNumber_exact [of 512]
  by (simp add: intField_def orStr_def)

lemma exp400: "exponentOf ''e400'' = 400"
  by (simp add: exponentOf_def Let_def decDigit_iff digitsValue_def digitValue_def)

lemma expm400: "exponentOf ''e-400'' = - 400"
  by (simp add: exponentOf_def Let_def decDigit_iff digitsValue_def digitValue_def)

lemma pf400: "parseFloat ''1e400'' = toNumber (10 ^ 400)"
  using parseFloat_frame [of "[]" "[]" "''1e400''"]
  by (simp add: Let_def startsWith_def decDigit_iff exp400 scale10_def digitsValue_def digitValue_def)

lemma pfm400: "parseFloat ''1e-400'' = toNumber (1 / 10 ^ 400)"
  using parseFloat_frame [of "[]" "[]" "''1e-400''"]
  by (simp add: Let_def startsWith_def decDigit_iff expm400 scale10_def digitsValue_def digitValue_def)

lemma big: "pow2 1024 \<le> 10 ^ 400"
  by (simp add: pow2_def)

lemma tiny: "(1::rat) / 10 ^ 400 < pow2 (- 1075)"
  by (simp add: pow2_def field_simps)

lemma ex400: "floatField ''1e400'' = PosInf \<and> floatField ''1e-400'' = Fin 0"
  using toNumber_overflow [OF big] toNumber_underflow [OF _ tiny]
  by (simp add: floatField_def orStr_def pf400 pfm400)

section \<open>Properties of the component\<close>

lemma ready_after_view_init: "step nts created (AfterViewInit True True) = Some ready"
  by (simp add: created_def ready_def ngAfterViewInit_def initCornerstoneElement_def)

section \<open>Claims about the reconciliation\<close>

text \<open>
  C1 (as found in the code). The claim gives the stored value precedence. The merge loop
  does the opposite: for every field \<open>f\<close> and every pair of a current (baseline) and an
  extracted (candidate) object, the merged value is the candidate's whenever the
  candidate's value passes the guard (it is not \<^verbatim>\<open>null\<close>, \<^verbatim>\<open>undefined\<close>, \<^verbatim>\<open>''\<close>, \<^verbatim>\<open>0\<close> or
  \<^verbatim>\<open>'Not available'\<close>), and the baseline's otherwise.
\<close>

theorem merge_field_rule:
  "getProp (mergeMetadata baseline candidate) f =
     (if nonEmptyValue (getProp candidate f) then getProp candidate f
      else getProp baseline f)"
  by (rule getProp_mergeMetadata)

text \<open>
  C1 fails as stated: a stored patient name that is not empty is replaced by the name
  read from the file.
\<close>

theorem merge_overwrites_patient_name:
  "getProp storedSmith ''patientName'' \<noteq> Str [] \<and>
   getProp (mergeMetadata storedSmith extractedDoe) ''patientName''
     \<noteq> getProp storedSmith ''patientName''"
  by (simp add: getProp_mergeMetadata storedSmith_def extractedDoe_def getProp_setProp
        nonEmptyValue_def)

text \<open>
  C2 (as found in the code). For \<^verbatim>\<open>studyInstanceUid\<close> and \<^verbatim>\<open>seriesInstanceUid\<close>,
  reconciliation against a stored record leaves the identifier as stored exactly when
  the extracted value does not pass the guard or equals the stored one; any other
  extracted value replaces it. In the scenario of the specification the merged record
  has patient name \<^verbatim>\<open>Jane Doe\<close>, study UID \<^verbatim>\<open>9.9.9\<close> and modality \<^verbatim>\<open>CT\<close>.
\<close>

theorem study_uid_kept_iff:
  "(f = ''studyInstanceUid'' \<or> f = ''seriesInstanceUid'' \<longrightarrow>
      (getProp (reconcile (Some baseline) candidate) f = getProp baseline f) =
      (\<not> nonEmptyValue (getProp candidate f) \<or> getProp candidate f = getProp baseline f)) \<and>
   getProp (reconcile (Some storedStudy) extractedJane) ''patientName'' = Str ''Jane Doe'' \<and>
   getProp (reconcile (Some storedStudy) extractedJane) ''studyInstanceUid'' = Str ''9.9.9'' \<and>
   getProp (reconcile (Some storedStudy) extractedJane) ''modality'' = Str ''CT''"
  by (auto simp: reconcile_def getProp_mergeMetadata storedStudy_def extractedJane_def
        getProp_setProp nonEmptyValue_def)

theorem study_uid_kept_iff_witness:
  "(getProp (reconcile (Some storedStudy) extractedJane) ''studyInstanceUid''
      = getProp storedStudy ''studyInstanceUid'') =
   (\<not> nonEmptyValue (getProp extractedJane ''studyInstanceUid'') \<or>
    getProp extractedJane ''studyInstanceUid'' = getProp storedStudy ''studyInstanceUid'')"
  using study_uid_kept_iff [of "''studyInstanceUid''" storedStudy extractedJane, THEN conjunct1]
  by simp

text \<open>
  C2 fails as stated: the stored study UID \<^verbatim>\<open>1.2.3\<close> of the scenario is replaced by the
  \<^verbatim>\<open>9.9.9\<close> of the file.
\<close>

theorem study_uid_overwritten:
  "getProp storedStudy ''studyInstanceUid'' = Str ''1.2.3'' \<and>
   getProp (reconcile (Some storedStudy) extractedJane) ''studyInstanceUid'' = Str ''9.9.9''"
  by (simp add: reconcile_def getProp_mergeMetadata storedStudy_def extractedJane_def
        getProp_setProp nonEmptyValue_def)

text \<open>
  C7 (as found in the code). Reconciling the all-empty record with a candidate gives
  the candidate, field by field, provided every candidate field either passes the guard
  or holds the empty value of its slot; with no current record at all the candidate is
  taken as it is; and reconciling any baseline with a candidate none of whose fields
  passes the guard gives the baseline itself.
\<close>

theorem merge_identity_laws:
  "((\<forall>f. nonEmptyValue (getProp candidate f) \<or>
          getProp candidate f = getProp emptyMetadata f) \<longrightarrow>
      (\<forall>f. getProp (reconcile (Some emptyMetadata) candidate) f = getProp candidate f)) \<and>
   reconcile None candidate = candidate \<and>
   ((\<forall>f. \<not> nonEmptyValue (getProp candidate f)) \<longrightarrow>
      reconcile (Some baseline) candidate = baseline)"
proof (intro conjI impI allI)
  fix f
  assume "\<forall>f. nonEmptyValue (getProp candidate f) \<or>
              getProp candidate f = getProp emptyMetadata f"
  then have "nonEmptyValue (getProp candidate f) \<or>
             getProp candidate f = getProp emptyMetadata f"
    by blast
  then show "getProp (reconcile (Some emptyMetadata) candidate) f = getProp candidate f"
    by (auto simp: reconcile_def getProp_mergeMetadata)
next
  show "reconcile None candidate = candidate" by (simp add: reconcile_def)
next
  assume "\<forall>f. \<not> nonEmptyValue (getProp candidate f)"
  then show "reconcile (Some baseline) candidate = baseline"
    by (simp add: reconcile_def mergeMetadata_def mergeKeys_all_empty)
qed

lemma extractedJane_fields:
  "nonEmptyValue (getProp extractedJane f) \<or>
   getProp extractedJane f = getProp emptyMetadata f"
  by (simp add: extractedJane_def getProp_setProp nonEmptyValue_def)

lemma emptyMetadata_fields: "\<not> nonEmptyValue (getProp emptyMetadata f)"
  by (simp add: emptyMetadata_def getProp_def nonEmptyValue_def)

theorem merge_identity_laws_witness:
  "(\<forall>f. nonEmptyValue (getProp extractedJane f) \<or>
        getProp extractedJane f = getProp emptyMetadata f) \<and>
   (\<forall>f. getProp (reconcile (Some emptyMetadata) extractedJane) f = getProp extractedJane f) \<and>
   (\<forall>f. \<not> nonEmptyValue (getProp emptyMetadata f)) \<and>
   reconcile (Some storedSmith) emptyMetadata = storedSmith"
  using merge_identity_laws [of extractedJane storedSmith]
    merge_identity_laws [of emptyMetadata storedSmith]
    extractedJane_fields emptyMetadata_fields
  by blast

text \<open>
  C7 fails as stated: a candidate whose patient name is the text \<^verbatim>\<open>Not available\<close>,
  reconciled with the all-empty record, does not come back; the merged name is empty.
\<close>

theorem not_available_not_filled:
  "getProp (reconcile (Some emptyMetadata) extractedUnnamed) ''patientName''
     \<noteq> getProp extractedUnnamed ''patientName''"
  by code_simp

text \<open>
  C10 (as found in the code). When the component holds a current record, a candidate
  field that is \<^verbatim>\<open>null\<close>, \<^verbatim>\<open>undefined\<close>, the empty string, the number 0 or the string
  \<^verbatim>\<open>Not available\<close> is never written: the merged record has for that field what the
  current record had (the same property, or none), an empty value included. When the
  component holds no record, nothing is merged and the extracted object is taken whole,
  such values with it.
\<close>

theorem empty_extracted_written_only_without_record:
  "(getProp candidate f \<in> {Null, Undefined, Str [], Num (Fin 0), Str ''Not available''} \<longrightarrow>
      map_of (mergeMetadata baseline candidate) f = map_of baseline f \<and>
      getProp (reconcile (Some baseline) candidate) f = getProp baseline f) \<and>
   reconcile None candidate = candidate"
  by (auto simp: reconcile_def getProp_mergeMetadata map_of_mergeMetadata nonEmptyValue_def)

theorem empty_extracted_written_only_without_record_witness:
  "getProp extractedUnnamed ''patientName''
     \<in> {Null, Undefined, Str [], Num (Fin 0), Str ''Not available''} \<and>
   map_of (mergeMetadata emptyMetadata extractedUnnamed) ''patientName''
     = map_of emptyMetadata ''patientName'' \<and>
   getProp (reconcile (Some emptyMetadata) extractedUnnamed) ''patientName''
     = getProp emptyMetadata ''patientName''"
proof -
  have h: "getProp extractedUnnamed ''patientName''
             \<in> {Null, Undefined, Str [], Num (Fin 0), Str ''Not available''}"
    by (simp add: extractedUnnamed_def getProp_setProp)
  show ?thesis
    using h empty_extracted_written_only_without_record
      [of extractedUnnamed "''patientName''" emptyMetadata]
    by blast
qed

text \<open>
  C10 fails as stated: on the first binding the image is loaded from \<^verbatim>\<open>ngAfterViewInit\<close>
  with no record in place, and the patient name \<^verbatim>\<open>Not available\<close> read from the file
  fills the field and is posted.
\<close>

theorem not_available_fills_first_load:
  "map_option observe
     (run zeroDigits created
        [SelectImage (Some 1), AfterViewInit True True, ImageLoaded 1 unnamedImage])
   = Some (Some 1, Str ''Not available'', [], [], [1])"
  by code_simp

section \<open>Claims about field normalisation\<close>

text \<open>
  C5 (as found in the code). The integer fields (rows, columns) and the float fields
  (window center, window width) are total functions of the raw string, so nothing is
  raised, and they are 0 on the empty string. A raw string that is not empty is white
  space, an optional sign and a body. The integer field is NaN exactly when the body
  does not start with a digit, or is \<^verbatim>\<open>0x\<close> or \<^verbatim>\<open>0X\<close> with no hexadecimal digit after
  it; the float field is NaN exactly when the body starts neither with a digit, nor with
  a point and a digit, nor with \<^verbatim>\<open>Infinity\<close>. A decimal numeral (for the float field
  also one with a fraction) followed by something that does not continue it is read as
  its value, rounded to a Number: exactly so for an integer below \<open>2 ^ 53\<close> in absolute
  value.
\<close>

theorem numeric_field_defaults:
  "intField [] = Fin 0 \<and> floatField [] = Fin 0 \<and>
   (set ws \<subseteq> set [CHR 0x09, CHR 0x0A, CHR 0x0B, CHR 0x0C, CHR 0x0D, CHR 0x20, CHR 0xA0] \<and>
    sg \<in> {[], ''+'', ''-''} \<and>
    (sg = [] \<longrightarrow> body = [] \<or>
       hd body \<notin> set [CHR 0x09, CHR 0x0A, CHR 0x0B, CHR 0x0C, CHR 0x0D, CHR 0x20, CHR 0xA0,
                       CHR ''+'', CHR ''-'']) \<and>
    ws @ sg @ body \<noteq> [] \<longrightarrow>
      (intField (ws @ sg @ body) = NaN) =
        (body = [] \<or> hd body \<notin> set ''0123456789'' \<or>
         (\<exists>rest. (body = ''0x'' @ rest \<or> body = ''0X'' @ rest) \<and>
                 (rest = [] \<or> hd rest \<notin> set ''0123456789abcdefABCDEF''))) \<and>
      (floatField (ws @ sg @ body) = NaN) =
        (\<not> (body \<noteq> [] \<and> hd body \<in> set ''0123456789'') \<and>
         \<not> (\<exists>d rest. body = CHR ''.'' # d # rest \<and> d \<in> set ''0123456789'') \<and>
         take 8 body \<noteq> ''Infinity'')) \<and>
   (set ws \<subseteq> set [CHR 0x09, CHR 0x0A, CHR 0x0B, CHR 0x0C, CHR 0x0D, CHR 0x20, CHR 0xA0] \<and>
    sg \<in> {[], ''+'', ''-''} \<and> ds \<noteq> [] \<and> set ds \<subseteq> set ''0123456789'' \<and>
    (rest = [] \<or> hd rest \<notin> set ''0123456789'') \<and>
    \<not> (ds = ''0'' \<and> rest \<noteq> [] \<and> hd rest \<in> {CHR ''x'', CHR ''X''}) \<longrightarrow>
      intField (ws @ sg @ ds @ rest) =
        toNumber (of_int ((if sg = ''-'' then - 1 else 1) *
          foldl (\<lambda>a c. a * 10 + (int (of_char c) - 48)) 0 ds))) \<and>
   (set ws \<subseteq> set [CHR 0x09, CHR 0x0A, CHR 0x0B, CHR 0x0C, CHR 0x0D, CHR 0x20, CHR 0xA0] \<and>
    sg \<in> {[], ''+'', ''-''} \<and> ds \<noteq> [] \<and> set ds \<subseteq> set ''0123456789'' \<and>
    (rest = [] \<or> hd rest \<notin> set ''0123456789.eE'') \<longrightarrow>
      floatField (ws @ sg @ ds @ rest) =
        toNumber ((if sg = ''-'' then - 1 else 1) *
          of_int (foldl (\<lambda>a c. a * 10 + (int (of_char c) - 48)) 0 ds))) \<and>
   (set ws \<subseteq> set [CHR 0x09, CHR 0x0A, CHR 0x0B, CHR 0x0C, CHR 0x0D, CHR 0x20, CHR 0xA0] \<and>
    sg \<in> {[], ''+'', ''-''} \<and> ip @ fp \<noteq> [] \<and>
    set ip \<subseteq> set ''0123456789'' \<and> set fp \<subseteq> set ''0123456789'' \<and>
    (rest = [] \<or> hd rest \<notin> set ''0123456789eE'') \<longrightarrow>
      floatField (ws @ sg @ ip @ CHR ''.'' # fp @ rest) =
        toNumber ((if sg = ''-'' then - 1 else 1) *
          (of_int (foldl (\<lambda>a c. a * 10 + (int (of_char c) - 48)) 0 ip) +
           of_int (foldl (\<lambda>a c. a * 10 + (int (of_char c) - 48)) 0 fp) / 10 ^ length fp))) \<and>
   (\<bar>n\<bar> < 2 ^ 53 \<longrightarrow> toNumber (of_int n) = Fin (of_int n)) \<and>
   intField ''512'' = Fin 512 \<and> floatField ''40.5'' = Fin (81 / 2) \<and>
   intField ''9007199254740993'' = Fin 9007199254740992 \<and>
   floatField ''1e400'' = PosInf \<and> floatField ''1e-400'' = Fin 0"
proof -
  have a: "intField [] = Fin 0 \<and> floatField [] = Fin 0"
    using intField_empty floatField_empty by (rule conjI)
  have b: "set ws \<subseteq> set [CHR 0x09, CHR 0x0A, CHR 0x0B, CHR 0x0C, CHR 0x0D, CHR 0x20, CHR 0xA0] \<and>
    sg \<in> {[], ''+'', ''-''} \<and>
    (sg = [] \<longrightarrow> body = [] \<or>
       hd body \<notin> set [CHR 0x09, CHR 0x0A, CHR 0x0B, CHR 0x0C, CHR 0x0D, CHR 0x20, CHR 0xA0,
                       CHR ''+'', CHR ''-'']) \<and>
    ws @ sg @ body \<noteq> [] \<longrightarrow>
      (intField (ws @ sg @ body) = NaN) =
        (body = [] \<or> hd body \<notin> set ''0123456789'' \<or>
         (\<exists>rest. (body = ''0x'' @ rest \<or> body = ''0X'' @ rest) \<and>
                 (rest = [] \<or> hd rest \<notin> set ''0123456789abcdefABCDEF''))) \<and>
      (floatField (ws @ sg @ body) = NaN) =
        (\<not> (body \<noteq> [] \<and> hd body \<in> set ''0123456789'') \<and>
         \<not> (\<exists>d rest. body = CHR ''.'' # d # rest \<and> d \<in> set ''0123456789'') \<and>
         take 8 body \<noteq> ''Infinity'')"
  proof (intro impI, elim conjE)
    assume h: "set ws \<subseteq> set [CHR 0x09, CHR 0x0A, CHR 0x0B, CHR 0x0C, CHR 0x0D, CHR 0x20, CHR 0xA0]"
      "sg \<in> {[], ''+'', ''-''}"
      "sg = [] \<longrightarrow> body = [] \<or>
       hd body \<notin> set [CHR 0x09, CHR 0x0A, CHR 0x0B, CHR 0x0C, CHR 0x0D, CHR 0x20, CHR 0xA0,
                       CHR ''+'', CHR ''-'']"
      and ne: "ws @ sg @ body \<noteq> []"
    show "(intField (ws @ sg @ body) = NaN) =
        (body = [] \<or> hd body \<notin> set ''0123456789'' \<or>
         (\<exists>rest. (body = ''0x'' @ rest \<or> body = ''0X'' @ rest) \<and>
                 (rest = [] \<or> hd rest \<notin> set ''0123456789abcdefABCDEF''))) \<and>
      (floatField (ws @ sg @ body) = NaN) =
        (\<not> (body \<noteq> [] \<and> hd body \<in> set ''0123456789'') \<and>
         \<not> (\<exists>d rest. body = CHR ''.'' # d # rest \<and> d \<in> set ''0123456789'') \<and>
         take 8 body \<noteq> ''Infinity'')"
      unfolding intField_nonempty [OF ne] floatField_nonempty [OF ne]
      using parseInt_NaN_iff [OF h] parseFloat_NaN_iff [OF h] by (rule conjI)
  qed
  have c: "set ws \<subseteq> set [CHR 0x09, CHR 0x0A, CHR 0x0B, CHR 0x0C, CHR 0x0D, CHR 0x20, CHR 0xA0] \<and>
    sg \<in> {[], ''+'', ''-''} \<and> ds \<noteq> [] \<and> set ds \<subseteq> set ''0123456789'' \<and>
    (rest = [] \<or> hd rest \<notin> set ''0123456789'') \<and>
    \<not> (ds = ''0'' \<and> rest \<noteq> [] \<and> hd rest \<in> {CHR ''x'', CHR ''X''}) \<longrightarrow>
      intField (ws @ sg @ ds @ rest) =
        toNumber (of_int ((if sg = ''-'' then - 1 else 1) *
          foldl (\<lambda>a c. a * 10 + (int (of_char c) - 48)) 0 ds))"
  proof (intro impI, elim conjE)
    assume h: "set ws \<subseteq> set [CHR 0x09, CHR 0x0A, CHR 0x0B, CHR 0x0C, CHR 0x0D, CHR 0x20, CHR 0xA0]"
      "sg \<in> {[], ''+'', ''-''}" "ds \<noteq> []" "set ds \<subseteq> set ''0123456789''"
      "rest = [] \<or> hd rest \<notin> set ''0123456789''"
      "\<not> (ds = ''0'' \<and> rest \<noteq> [] \<and> hd rest \<in> {CHR ''x'', CHR ''X''})"
    have ne: "ws @ sg @ ds @ rest \<noteq> []" using h(3) by simp
    show "intField (ws @ sg @ ds @ rest) =
        toNumber (of_int ((if sg = ''-'' then - 1 else 1) *
          foldl (\<lambda>a c. a * 10 + (int (of_char c) - 48)) 0 ds))"
      unfolding intField_nonempty [OF ne] by (rule parseInt_decimal [OF h])
  qed
  have d: "set ws \<subseteq> set [CHR 0x09, CHR 0x0A, CHR 0x0B, CHR 0x0C, CHR 0x0D, CHR 0x20, CHR 0xA0] \<and>
    sg \<in> {[], ''+'', ''-''} \<and> ds \<noteq> [] \<and> set ds \<subseteq> set ''0123456789'' \<and>
    (rest = [] \<or> hd rest \<notin> set ''0123456789.eE'') \<longrightarrow>
      floatField (ws @ sg @ ds @ rest) =
        toNumber ((if sg = ''-'' then - 1 else 1) *
          of_int (foldl (\<lambda>a c. a * 10 + (int (of_char c) - 48)) 0 ds))"
  proof (intro impI, elim conjE)
    assume h: "set ws \<subseteq> set [CHR 0x09, CHR 0x0A, CHR 0x0B, CHR 0x0C, CHR 0x0D, CHR 0x20, CHR 0xA0]"
      "sg \<in> {[], ''+'', ''-''}" "ds \<noteq> []" "set ds \<subseteq> set ''0123456789''"
      "rest = [] \<or> hd rest \<notin> set ''0123456789.eE''"
    have ne: "ws @ sg @ ds @ rest \<noteq> []" using h(3) by simp
    show "floatField (ws @ sg @ ds @ rest) =
        toNumber ((if sg = ''-'' then - 1 else 1) *
          of_int (foldl (\<lambda>a c. a * 10 + (int (of_char c) - 48)) 0 ds))"
      unfolding floatField_nonempty [OF ne] by (rule parseFloat_integer [OF h])
  qed
  have e: "set ws \<subseteq> set [CHR 0x09, CHR 0x0A, CHR 0x0B, CHR 0x0C, CHR 0x0D, CHR 0x20, CHR 0xA0] \<and>
    sg \<in> {[], ''+'', ''-''} \<and> ip @ fp \<noteq> [] \<and>
    set ip \<subseteq> set ''0123456789'' \<and> set fp \<subseteq> set ''0123456789'' \<and>
    (rest = [] \<or> hd rest \<notin> set ''0123456789eE'') \<longrightarrow>
      floatField (ws @ sg @ ip @ CHR ''.'' # fp @ rest) =
        toNumber ((if sg = ''-'' then - 1 else 1) *
          (of_int (foldl (\<lambda>a c. a * 10 + (int (of_char c) - 48)) 0 ip) +
           of_int (foldl (\<lambda>a c. a * 10 + (int (of_char c) - 48)) 0 fp) / 10 ^ length fp))"
  proof (intro impI, elim conjE)
    assume h: "set ws \<subseteq> set [CHR 0x09, CHR 0x0A, CHR 0x0B, CHR 0x0C, CHR 0x0D, CHR 0x20, CHR 0xA0]"
      "sg \<in> {[], ''+'', ''-''}" "ip @ fp \<noteq> []"
      "set ip \<subseteq> set ''0123456789''" "set fp \<subseteq> set ''0123456789''"
      "rest = [] \<or> hd rest \<notin> set ''0123456789eE''"
    have ne: "ws @ sg @ ip @ CHR ''.'' # fp @ rest \<noteq> []" by simp
    show "floatField (ws @ sg @ ip @ CHR ''.'' # fp @ rest) =
        toNumber ((if sg = ''-'' then - 1 else 1) *
          (of_int (foldl (\<lambda>a c. a * 10 + (int (of_char c) - 48)) 0 ip) +
           of_int (foldl (\<lambda>a c. a * 10 + (int (of_char c) - 48)) 0 fp) / 10 ^ length fp))"
      unfolding floatField_nonempty [OF ne] by (rule parseFloat_fraction [OF h])
  qed
  have n: "\<bar>n\<bar> < 2 ^ 53 \<longrightarrow> toNumber (of_int n) = Fin (of_int n)"
    using toNumber_exact by blast
  have x1: "intField ''512'' = Fin 512" by (rule ex512)
  have x2: "floatField ''40.5'' = Fin (81 / 2)" by code_simp
  have x3: "intField ''9007199254740993'' = Fin 9007199254740992" by code_simp
  note x4 = ex400
  from a b c d e n x1 x2 x3 x4 show ?thesis by (intro conjI) (erule conjunct1 conjunct2 asm_rl)+
qed

theorem numeric_field_defaults_witness:
  "set '' '' \<subseteq> set [CHR 0x09, CHR 0x0A, CHR 0x0B, CHR 0x0C, CHR 0x0D, CHR 0x20, CHR 0xA0] \<and>
   intField '' -x'' = NaN \<and> floatField '' -x'' = NaN \<and>
   set [CHR 0xA0] \<subseteq> set [CHR 0x09, CHR 0x0A, CHR 0x0B, CHR 0x0C, CHR 0x0D, CHR 0x20, CHR 0xA0] \<and>
   set ''42'' \<subseteq> set ''0123456789'' \<and> \<bar>42 :: int\<bar> < 2 ^ 53 \<and>
   intField (CHR 0xA0 # ''42px'') = Fin 42 \<and>
   set ''512'' \<subseteq> set ''0123456789'' \<and> \<bar>512 :: int\<bar> < 2 ^ 53 \<and>
   floatField ''+512'' = Fin 512 \<and>
   set ''40'' \<subseteq> set ''0123456789'' \<and> set ''5'' \<subseteq> set ''0123456789'' \<and>
   floatField ''-40.5x'' = toNumber (- (81 / 2))"
proof -
  have w1: "set '' '' \<subseteq> set [CHR 0x09, CHR 0x0A, CHR 0x0B, CHR 0x0C, CHR 0x0D, CHR 0x20, CHR 0xA0]"
    by simp
  have w2: "set [CHR 0xA0] \<subseteq> set [CHR 0x09, CHR 0x0A, CHR 0x0B, CHR 0x0C, CHR 0x0D, CHR 0x20, CHR 0xA0]"
    by simp
  have d1: "set ''42'' \<subseteq> set ''0123456789''" by simp
  have d2: "set ''512'' \<subseteq> set ''0123456789''" by simp
  have d3: "set ''40'' \<subseteq> set ''0123456789''" "set ''5'' \<subseteq> set ''0123456789''" by simp_all
  have n1: "\<bar>42 :: int\<bar> < 2 ^ 53" by simp
  have n2: "\<bar>512 :: int\<bar> < 2 ^ 53" by simp
  have b: "intField '' -x'' = NaN \<and> floatField '' -x'' = NaN"
    using w1 numeric_field_defaults [of "'' ''" "''-''" "''x''",
        THEN conjunct2, THEN conjunct2, THEN conjunct1]
    by simp
  have e42: "toNumber (of_int 42) = Fin (of_int 42)"
    using n1 numeric_field_defaults [where n = 42, THEN conjunct2, THEN conjunct2,
        THEN conjunct2, THEN conjunct2, THEN conjunct2, THEN conjunct2, THEN conjunct1]
    by blast
  have e512: "toNumber (of_int 512) = Fin (of_int 512)"
    using n2 numeric_field_defaults [where n = 512, THEN conjunct2, THEN conjunct2,
        THEN conjunct2, THEN conjunct2, THEN conjunct2, THEN conjunct2, THEN conjunct1]
    by blast
  have c: "intField (CHR 0xA0 # ''42px'') = Fin 42"
    using w2 d1 e42 numeric_field_defaults [of "[CHR 0xA0]" "[]" _ "''42''" "''px''",
        THEN conjunct2, THEN conjunct2, THEN conjunct2, THEN conjunct1]
    by simp
  have d: "floatField ''+512'' = Fin 512"
    using d2 e512 numeric_field_defaults [of "[]" "''+''" _ "''512''" "[]",
        THEN conjunct2, THEN conjunct2, THEN conjunct2, THEN conjunct2, THEN conjunct1]
    by simp
  have e: "floatField ''-40.5x'' = toNumber (- (81 / 2))"
    using d3 numeric_field_defaults [of "[]" "''-''" _ _ "''x''" "''40''" "''5''",
        THEN conjunct2, THEN conjunct2, THEN conjunct2, THEN conjunct2, THEN conjunct2,
        THEN conjunct1]
    by simp
  from w1 w2 d1 d2 d3 n1 n2 b c d e show ?thesis by blast
qed

text \<open>
  C5 fails as stated: the unparsable raw string \<^verbatim>\<open>abc\<close> does not give 0, neither as an
  integer field nor as a float field.
\<close>

theorem unparsable_rows_not_zero: "intField ''abc'' \<noteq> Fin 0 \<and> floatField ''abc'' \<noteq> Fin 0"
  by code_simp

text \<open>
  C6. \<^verbatim>\<open>formatDate\<close> rewrites a string of length 8 as its first four characters, a
  hyphen, the next two, a hyphen and the last two, and returns a string of any other
  length, the empty one included, as it is; the result differs from the input exactly
  when the length is 8. \<^verbatim>\<open>20230115\<close> becomes \<^verbatim>\<open>2023-01-15\<close>, \<^verbatim>\<open>2023\<close> stays \<^verbatim>\<open>2023\<close>.
\<close>

theorem formatDate_by_length:
  "formatDate s =
     (if length s = 8 then take 4 s @ ''-'' @ take 2 (drop 4 s) @ ''-'' @ take 2 (drop 6 s)
      else s) \<and>
   (formatDate s \<noteq> s) = (length s = 8) \<and>
   formatDate ''20230115'' = ''2023-01-15'' \<and>
   formatDate ''2023'' = ''2023''"
proof -
  have a: "formatDate s =
     (if length s = 8 then take 4 s @ ''-'' @ take 2 (drop 4 s) @ ''-'' @ take 2 (drop 6 s)
      else s)"
    by (auto simp: formatDate_def Let_def)
  have ne: "formatDate s \<noteq> s" if l: "length s = 8"
  proof -
    have "length (formatDate s) = 10" using l by (simp add: a)
    then show ?thesis using l by auto
  qed
  have eq: "formatDate s = s" if "length s \<noteq> 8"
    using that by (simp add: a)
  have b: "(formatDate s \<noteq> s) = (length s = 8)"
    using ne eq by blast
  have c: "formatDate ''20230115'' = ''2023-01-15''" by (simp add: formatDate_def)
  have d: "formatDate ''2023'' = ''2023''" by (simp add: formatDate_def)
  from a b c d show ?thesis by blast
qed

section \<open>Claims about tag resolution\<close>

text \<open>
  C8. For every element dictionary, a \<^verbatim>\<open>null\<close> or otherwise falsy one included, and
  every key, \<^verbatim>\<open>getTagValue\<close> and \<^verbatim>\<open>getTag\<close> return a string and never an exception; on
  a falsy dictionary \<^verbatim>\<open>getTag\<close> returns the empty string. When the lookup under one
  spelling throws, \<^verbatim>\<open>getTagValue\<close> returns the empty string for that spelling and the
  loop of \<^verbatim>\<open>getTag\<close> goes on with the remaining spellings.
\<close>

theorem tag_lookup_never_raises:
  "(\<exists>s. getTagValue nts dataset format = Inr s) \<and>
   (\<exists>s. getTag nts dataset key = Inr s) \<and>
   (\<not> truthy dataset \<longrightarrow> getTag nts dataset key = Inr []) \<and>
   (getTagValue_try nts dataset format = Inl e \<longrightarrow>
      getTagValue nts dataset format = Inr [] \<and>
      getTag_loop nts dataset (format # rest) = getTag_loop nts dataset rest)"
proof -
  have "getTag_loop nts dataset (format # rest) = getTag_loop nts dataset rest"
    if "getTagValue_try nts dataset format = Inl e"
    using getTagValue_swallows [OF that] by (simp add: bindE_def)
  then show ?thesis
    using getTagValue_total [of nts dataset format] getTag_total [of nts dataset key]
      getTagValue_swallows [of nts dataset format e]
      getTag_loop_falsy_dataset [of dataset nts "formats key"]
    by (auto simp: getTag_def)
qed

theorem tag_lookup_never_raises_witness:
  "\<not> truthy Null \<and> getTag zeroDigits Null ''00100010'' = Inr [] \<and>
   getTagValue_try zeroDigits brokenThenGood ''00100010'' = Inl Thrown \<and>
   getTagValue zeroDigits brokenThenGood ''00100010'' = Inr [] \<and>
   getTag_loop zeroDigits brokenThenGood (''00100010'' # [''x00100010''])
     = getTag_loop zeroDigits brokenThenGood [''x00100010''] \<and>
   getTag zeroDigits brokenThenGood ''00100010'' = Inr ''DOE^JANE''"
proof -
  have h: "getTagValue_try zeroDigits brokenThenGood ''00100010'' = Inl Thrown"
    by code_simp
  have g: "getTag zeroDigits brokenThenGood ''00100010'' = Inr ''DOE^JANE''"
    by code_simp
  have n: "\<not> truthy Null" by simp
  have t: "getTagValue zeroDigits brokenThenGood ''00100010'' = Inr [] \<and>
      getTag_loop zeroDigits brokenThenGood (''00100010'' # [''x00100010''])
        = getTag_loop zeroDigits brokenThenGood [''x00100010'']"
    using h tag_lookup_never_raises [of zeroDigits brokenThenGood "''00100010''" "''00100010''" Thrown
        "[''x00100010'']"]
    by blast
  have u: "getTag zeroDigits Null ''00100010'' = Inr []"
    using n tag_lookup_never_raises [of zeroDigits Null "''00100010''" "''00100010''" Thrown "[]"] by blast
  show ?thesis using n u h t g by blast
qed



section \<open>Claims about the sequencing of the two sources\<close>

text \<open>
  C3 (missed by the code). The comments of \<^verbatim>\<open>ngOnChanges\<close> say that the delay is there
  so that the metadata request has completed before the image is loaded and extracted,
  but the load hangs on a timer, not on the answer. In the run where the timer callback
  and the loaded image come before the answer, the file has been extracted, merged and
  posted for image 1 while the request for image 1 is still in flight. On the first
  binding the load starts from \<^verbatim>\<open>ngAfterViewInit\<close> and no request is sent at all.
\<close>

theorem extraction_before_baseline:
  "map_option observe
     (run zeroDigits ready [SelectImage (Some 1), TimerFires, ImageLoaded 1 janeImage])
   = Some (Some 1, Str ''Jane Doe'', [1], [], [1]) \<and>
   map_option observe
     (run zeroDigits created
        [SelectImage (Some 1), AfterViewInit True True, ImageLoaded 1 janeImage])
   = Some (Some 1, Str ''Jane Doe'', [], [], [1])"
  by code_simp

text \<open>
  C4 (as found in the code). There is no guard by image identity. The answer to any
  metadata request in flight is applied to the metadata of the component as it is when
  the answer arrives, and the image of any load in flight is extracted and reconciled
  with that metadata, whichever image the request or load was started for and whichever
  image is selected now.
\<close>

theorem results_applied_whatever_image:
  "(i \<in> set (fetches s) \<longrightarrow>
      map_option dicomMetadata (step nts s (MetadataResponse i response))
        = Some (applyResponse (dicomMetadata s) response)) \<and>
   (i \<in> set (loads s) \<and> buildExtracted nts img = Inr extracted \<longrightarrow>
      map_option dicomMetadata (step nts s (ImageLoaded i img))
        = Some (Some (reconcile (dicomMetadata s) extracted)))"
  by (simp add: extractDicomMetadata_def saveMetadataToServer_def
        split: option.split)

lemma janeExtracted_built: "buildExtracted zeroDigits janeImage = Inr janeExtracted"
  by code_simp

theorem results_applied_whatever_image_witness:
  "selectedImage switchedWhileFetching = Some 2 \<and> 1 \<in> set (fetches switchedWhileFetching) \<and>
   map_option dicomMetadata (step zeroDigits switchedWhileFetching (MetadataResponse 1 aliceResponse))
     = Some (applyResponse (dicomMetadata switchedWhileFetching) aliceResponse) \<and>
   selectedImage switchedWhileLoading = Some 2 \<and> 1 \<in> set (loads switchedWhileLoading) \<and>
   buildExtracted zeroDigits janeImage = Inr janeExtracted \<and>
   map_option dicomMetadata (step zeroDigits switchedWhileLoading (ImageLoaded 1 janeImage))
     = Some (Some (reconcile (dicomMetadata switchedWhileLoading) janeExtracted))"
proof -
  have a: "selectedImage switchedWhileFetching = Some 2 \<and> 1 \<in> set (fetches switchedWhileFetching)"
    by (simp add: switchedWhileFetching_def ready_def ngOnChanges_def fetchMetadataFromApi_def Let_def)
  have b: "selectedImage switchedWhileLoading = Some 2 \<and> 1 \<in> set (loads switchedWhileLoading)"
    by (simp add: switchedWhileLoading_def ready_def ngOnChanges_def fetchMetadataFromApi_def
        loadAndDisplayImage_def Let_def)
  show ?thesis
    using a b janeExtracted_built
      results_applied_whatever_image [of 1 switchedWhileFetching zeroDigits aliceResponse janeImage janeExtracted]
      results_applied_whatever_image [of 1 switchedWhileLoading zeroDigits aliceResponse janeImage janeExtracted]
    by blast
qed

text \<open>
  C4 fails as stated: the user goes from image 1 to image 2 while image 1 is loading;
  when the load of image 1 resolves, the patient name of image 1 is on display for
  image 2 and the merged record is posted under the id of image 2.
\<close>

theorem stale_extraction_applied:
  "map_option observe
     (run zeroDigits ready
        [SelectImage (Some 1), TimerFires, SelectImage (Some 2), ImageLoaded 1 janeImage])
   = Some (Some 2, Str ''Jane Doe'', [1, 2], [], [2])"
  by code_simp

end
